theory Spec2Isabelle
  imports Main "HOL-Library.Multiset"
begin

section \<open>Python values and exceptions\<close>

text \<open>
  The two modules \<^verbatim>\<open>openstack_automation.py\<close> and \<^verbatim>\<open>batch_operations.py\<close> are
  sequences of calls into the OpenStack SDK. The SDK is not part of the repository: it is
  a parameter of every function below (the record \<open>automation\<close>), and every property
  is proved for every behaviour of the SDK.

  Exceptions are values. \<open>SDKException\<close> stands for any exception of class
  \<^verbatim>\<open>Exception\<close> that the SDK raises; the other three are the ones the Python code itself
  raises. Exceptions outside \<^verbatim>\<open>Exception\<close> (a keyboard interrupt) are not modelled.
\<close>

datatype exn =
    ValueError string
  | TypeError string
  | KeyError string
  | SDKException string

text \<open>\<^verbatim>\<open>str(e)\<close>: the message; for a \<^verbatim>\<open>KeyError\<close> the quoted key.\<close>

fun exn_str :: "exn \<Rightarrow> string" where
  "exn_str (ValueError m) = m"
| "exn_str (TypeError m) = m"
| "exn_str (KeyError k) = [CHR 0x27] @ k @ [CHR 0x27]"
| "exn_str (SDKException m) = m"

text \<open>
  The values a keyword argument of \<^verbatim>\<open>launch_instance\<close> takes: a string, a boolean,
  \<^verbatim>\<open>None\<close>, or a list of string dictionaries (the \<^verbatim>\<open>networks\<close> list that
  \<^verbatim>\<open>rolling_update\<close> builds).
\<close>

datatype pyval =
    Str string
  | Bool bool
  | NoneV
  | Dicts "(string \<times> string) list list"

text \<open>Python truthiness, as \<^verbatim>\<open>if network_name:\<close> tests it.\<close>

fun truthy :: "pyval \<Rightarrow> bool" where
  "truthy (Str s) = (s \<noteq> [])"
| "truthy (Bool b) = b"
| "truthy NoneV = False"
| "truthy (Dicts ds) = (ds \<noteq> [])"

fun join :: "string \<Rightarrow> string list \<Rightarrow> string" where
  "join sep [] = []"
| "join sep [x] = x"
| "join sep (x # y # ys) = x @ sep @ join sep (y # ys)"

text \<open>
  \<^verbatim>\<open>repr\<close> of a string, for strings that need no escape (no quote, no backslash, printable);
  an f-string formats a list of dictionaries through it.
\<close>

definition py_repr :: "string \<Rightarrow> string" where
  "py_repr s = [CHR 0x27] @ s @ [CHR 0x27]"

definition py_repr_dict :: "(string \<times> string) list \<Rightarrow> string" where
  "py_repr_dict d = ''{'' @ join '', '' (map (\<lambda>(k, v). py_repr k @ '': '' @ py_repr v) d) @ ''}''"

text \<open>The text an f-string puts for \<^verbatim>\<open>{x}\<close>.\<close>

fun py_str :: "pyval \<Rightarrow> string" where
  "py_str (Str s) = s"
| "py_str (Bool b) = (if b then ''True'' else ''False'')"
| "py_str NoneV = ''None''"
| "py_str (Dicts ds) = ''['' @ join '', '' (map py_repr_dict ds) @ '']''"

text \<open>\<^verbatim>\<open>str.startswith\<close>.\<close>

definition startswith :: "string \<Rightarrow> string \<Rightarrow> bool" where
  "startswith s p = (take (length p) s = p)"

section \<open>The provider's objects\<close>

text \<open>
  The fields are the attributes the code reads. A name that the code tests before use
  (\<^verbatim>\<open>volume.name and ...\<close>) may be \<^verbatim>\<open>None\<close>; a server's name is read without a test.
\<close>

record server =
  srv_id :: string
  srv_name :: string
  srv_status :: string
  srv_addresses :: "(string \<times> string list) list"
  srv_networks :: "(string \<times> string) list list"
  srv_flavor :: "(string \<times> string) list"

record image =
  img_id :: string

record flavor =
  flv_id :: string

record net =
  net_id :: string
  net_name :: "string option"
  net_is_router_external :: bool

record security_group =
  sg_id :: string
  sg_name :: "string option"

record floating_ip =
  fip_floating_ip_address :: string
  fip_fixed_ip_address :: "string option"

record vol =
  vol_id :: string
  vol_name :: "string option"

record router =
  rtr_id :: string
  rtr_name :: "string option"

record port =
  port_id :: string
  port_device_owner :: string

text \<open>The keyword arguments of \<^verbatim>\<open>conn.compute.create_server\<close>.\<close>

record create_server_args =
  cs_name :: pyval
  cs_image_id :: string
  cs_flavor_id :: string
  cs_networks :: "(string \<times> string) list list"
  cs_security_groups :: "(string \<times> string option) list list"
  cs_key_name :: pyval
  cs_user_data :: pyval

section \<open>The world: backend, calls issued, log lines\<close>

text \<open>
  Every call the code makes into the SDK, with its arguments, and the call of
  \<^verbatim>\<open>time.sleep\<close>. For \<open>WaitForServer\<close> the two options are the keywords
  \<^verbatim>\<open>status\<close> and \<^verbatim>\<open>wait\<close>, \<open>None\<close> when the call leaves them to the SDK's default.
\<close>

datatype call =
    FindServer string
  | FindFlavor pyval
  | FindImage pyval
  | ListServers
  | CreateServer create_server_args
  | WaitForServer server "string option" "nat option"
  | DeleteServer server
  | WaitForDelete server
  | CreateServerImage server string
  | ResizeServer server flavor
  | ConfirmResizeServer server
  | AddFloatingIpToServer server string
  | CreateVolumeAttachment server string
  | FindNetwork pyval
  | FindSecurityGroup pyval
  | ListNetworks
  | CreateIp string
  | ListIps
  | DeleteIp floating_ip
  | ListRouters
  | ListPorts string
  | RemoveInterfaceFromRouter router string
  | DeleteRouter router
  | DeleteNetwork net
  | ListSecurityGroups
  | DeleteSecurityGroup security_group
  | FindVolume string
  | ListVolumes
  | DeleteVolume vol
  | Sleep nat

datatype level = INFO | WARNING | ERROR

text \<open>
  The state a function runs in: the backend \<open>cloud\<close> (of any type \<open>'c\<close>; the clock is
  part of it), the calls issued so far, oldest first, and the lines written to the logger.
\<close>

record 'c world =
  cloud :: 'c
  calls :: "call list"
  logs :: "(level \<times> string) list"

text \<open>An action either raises or returns, and leaves a new world.\<close>

type_synonym ('c, 'a) act = "'c world \<Rightarrow> (exn + 'a) \<times> 'c world"

definition ret :: "'a \<Rightarrow> ('c, 'a) act" where
  "ret x w = (Inr x, w)"

definition raise :: "exn \<Rightarrow> ('c, 'a) act" where
  "raise e w = (Inl e, w)"

definition bind :: "('c, 'a) act \<Rightarrow> ('a \<Rightarrow> ('c, 'b) act) \<Rightarrow> ('c, 'b) act" where
  "bind m f w = (case m w of (Inl e, w') \<Rightarrow> (Inl e, w') | (Inr x, w') \<Rightarrow> f x w')"

text \<open>\<^verbatim>\<open>try: m  except Exception as e: h e\<close>.\<close>

definition try_except :: "('c, 'a) act \<Rightarrow> (exn \<Rightarrow> ('c, 'a) act) \<Rightarrow> ('c, 'a) act" where
  "try_except m h w = (case m w of (Inl e, w') \<Rightarrow> h e w' | (Inr x, w') \<Rightarrow> (Inr x, w'))"

definition logger :: "level \<Rightarrow> string \<Rightarrow> ('c, unit) act" where
  "logger l msg w = (Inr (), w\<lparr>logs := logs w @ [(l, msg)]\<rparr>)"

text \<open>
  One call into the SDK: the call is recorded, whether it raises or not, and the backend
  is what the SDK leaves.
\<close>

definition sdk :: "call \<Rightarrow> ('c \<Rightarrow> (exn + 'a) \<times> 'c) \<Rightarrow> ('c, 'a) act" where
  "sdk ev f w = (case f (cloud w) of (r, c') \<Rightarrow> (r, w\<lparr>cloud := c', calls := calls w @ [ev]\<rparr>))"

section \<open>The SDK, as the code uses it\<close>

text \<open>
  \<^verbatim>\<open>self.conn.compute\<close>, \<^verbatim>\<open>self.conn.network\<close> and \<^verbatim>\<open>self.conn.volume\<close>. A lookup
  returns \<open>None\<close> for a name that is not found. A listing (a generator in the SDK) is one
  call that returns the whole list.
\<close>

type_synonym ('c, 'a) op = "'c \<Rightarrow> (exn + 'a) \<times> 'c"

record 'c compute_api =
  find_server :: "string \<Rightarrow> ('c, server option) op"
  find_flavor :: "pyval \<Rightarrow> ('c, flavor option) op"
  find_image :: "pyval \<Rightarrow> ('c, image option) op"
  servers :: "('c, server list) op"
  create_server :: "create_server_args \<Rightarrow> ('c, server) op"
  wait_for_server :: "server \<Rightarrow> string option \<Rightarrow> nat option \<Rightarrow> ('c, server) op"
  delete_server :: "server \<Rightarrow> ('c, unit) op"
  wait_for_delete :: "server \<Rightarrow> ('c, unit) op"
  create_server_image :: "server \<Rightarrow> string \<Rightarrow> ('c, image) op"
  resize_server :: "server \<Rightarrow> flavor \<Rightarrow> ('c, unit) op"
  confirm_resize_server :: "server \<Rightarrow> ('c, unit) op"
  add_floating_ip_to_server :: "server \<Rightarrow> string \<Rightarrow> ('c, unit) op"
  create_volume_attachment :: "server \<Rightarrow> string \<Rightarrow> ('c, unit) op"

record 'c network_api =
  find_network :: "pyval \<Rightarrow> ('c, net option) op"
  find_security_group :: "pyval \<Rightarrow> ('c, security_group option) op"
  networks :: "('c, net list) op"
  create_ip :: "string \<Rightarrow> ('c, floating_ip) op"
  ips :: "('c, floating_ip list) op"
  delete_ip :: "floating_ip \<Rightarrow> ('c, unit) op"
  routers :: "('c, router list) op"
  ports :: "string \<Rightarrow> ('c, port list) op"
  remove_interface_from_router :: "router \<Rightarrow> string \<Rightarrow> ('c, unit) op"
  delete_router :: "router \<Rightarrow> ('c, unit) op"
  delete_network :: "net \<Rightarrow> ('c, unit) op"
  security_groups :: "('c, security_group list) op"
  delete_security_group :: "security_group \<Rightarrow> ('c, unit) op"

record 'c volume_api =
  find_volume :: "string \<Rightarrow> ('c, vol option) op"
  volumes :: "('c, vol list) op"
  delete_volume :: "vol \<Rightarrow> ('c, unit) op"

text \<open>
  \<^verbatim>\<open>self\<close>: the connection, the process environment that \<^verbatim>\<open>os.getenv\<close> reads,
  \<^verbatim>\<open>int(time.time())\<close> and the effect of \<^verbatim>\<open>time.sleep\<close> on the backend.
\<close>

record 'c automation =
  compute :: "'c compute_api"
  network :: "'c network_api"
  volume :: "'c volume_api"
  environ :: "(string \<times> string) list"
  time_time :: "'c \<Rightarrow> int"
  time_sleep :: "nat \<Rightarrow> 'c \<Rightarrow> 'c"

section \<open>The worker pool\<close>

text \<open>
  \<^verbatim>\<open>concurrent.futures.ThreadPoolExecutor\<close>. A submitted task is a future, pending until
  the pool has run it. The pool runs each task as one step, in an order that the
  schedule chooses: the order of the steps of concurrent workers, and the order in which
  \<^verbatim>\<open>as_completed\<close> hands the futures back, are not fixed by the code.
\<close>

datatype ('c, 'a) future =
    Pending "('c, 'a) act"
  | Finished "exn + 'a"

record schedule =
  early :: "nat \<Rightarrow> nat list"
  run_order :: "nat list"
  done_order :: "nat list"

definition submit :: "('c, 'a) future list \<Rightarrow> ('c, 'a) act \<Rightarrow> ('c, 'a) future list" where
  "submit fs t = fs @ [Pending t]"

text \<open>The pool runs future \<open>i\<close>, if there is one and it is pending.\<close>

definition run_future ::
  "nat \<Rightarrow> ('c, 'a) future list \<Rightarrow> 'c world \<Rightarrow> ('c, 'a) future list \<times> 'c world" where
  "run_future i fs w =
     (if i < length fs then
        (case fs ! i of
           Pending t \<Rightarrow> (case t w of (r, w') \<Rightarrow> (fs[i := Finished r], w'))
         | Finished r \<Rightarrow> (fs, w))
      else (fs, w))"

fun run_pending ::
  "nat list \<Rightarrow> ('c, 'a) future list \<Rightarrow> 'c world \<Rightarrow> ('c, 'a) future list \<times> 'c world" where
  "run_pending [] fs w = (fs, w)"
| "run_pending (i # js) fs w = (case run_future i fs w of (fs', w') \<Rightarrow> run_pending js fs' w')"

text \<open>
  Leaving the \<^verbatim>\<open>with\<close> block, or draining \<^verbatim>\<open>as_completed\<close>, waits for every future:
  the futures named by the schedule run first and in its order, then all the others.
\<close>

definition shutdown_wait ::
  "nat list \<Rightarrow> ('c, 'a) future list \<Rightarrow> 'c world \<Rightarrow> ('c, 'a) future list \<times> 'c world" where
  "shutdown_wait hint fs w = run_pending (hint @ [0..<length fs]) fs w"

text \<open>
  The order in which \<open>n\<close> futures are handed back: any list of indices gives a
  permutation of \<open>0..<n\<close>, and a permutation gives itself.
\<close>

definition completion_order :: "nat list \<Rightarrow> nat \<Rightarrow> nat list" where
  "completion_order hint n =
     filter (\<lambda>i. i < n) (remdups hint) @ filter (\<lambda>i. i \<notin> set hint) [0..<n]"

definition as_completed :: "nat list \<Rightarrow> ('c, 'a) future list \<Rightarrow> (nat \<times> (exn + 'a)) list" where
  "as_completed hint fs =
     List.map_filter
       (\<lambda>i. case fs ! i of Finished r \<Rightarrow> Some (i, r) | Pending t \<Rightarrow> None)
       (completion_order hint (length fs))"

section \<open>Health aggregation\<close>

text \<open>A result dictionary whose values are lists; \<^verbatim>\<open>d[k].append(v)\<close>.\<close>

fun dict_append :: "(string \<times> 'a list) list \<Rightarrow> string \<Rightarrow> 'a \<Rightarrow> exn + (string \<times> 'a list) list" where
  "dict_append [] k v = Inl (KeyError k)"
| "dict_append ((k', xs) # d) k v =
     (if k' = k then Inr ((k', xs @ [v]) # d)
      else (case dict_append d k v of Inl e \<Rightarrow> Inl e | Inr d' \<Rightarrow> Inr ((k', xs) # d')))"

text \<open>\<^verbatim>\<open>BatchOperations._check_instance_health\<close>\<close>

definition check_instance_health :: "'c automation \<Rightarrow> string \<Rightarrow> ('c, string) act" where
  "check_instance_health self server_name =
     bind (sdk (FindServer server_name) (find_server (compute self) server_name)) (\<lambda>server.
       case server of
         None \<Rightarrow> ret ''unknown''
       | Some s \<Rightarrow>
           if srv_status s \<noteq> ''ACTIVE'' then ret ''unhealthy''
           else if srv_addresses s = [] then ret ''unhealthy''
           else ret ''healthy'')"

text \<open>
  The body of the loop over \<^verbatim>\<open>as_completed(futures)\<close> in
  \<^verbatim>\<open>health_check_instances\<close>, for the future \<open>i\<close> with result \<open>r\<close>: the append is
  inside the \<^verbatim>\<open>try\<close>; the handler logs and appends to \<^verbatim>\<open>'unknown'\<close>.
\<close>

definition collect_one ::
  "string list \<Rightarrow> nat \<times> (exn + string) \<Rightarrow> (string \<times> string list) list
     \<Rightarrow> ('c, (string \<times> string list) list) act" where
  "collect_one server_names ir health_status =
     (case ir of (i, r) \<Rightarrow>
        try_except
          (case r of
             Inl e \<Rightarrow> raise e
           | Inr status \<Rightarrow>
               (case dict_append health_status status (server_names ! i) of
                  Inl e \<Rightarrow> raise e
                | Inr hs \<Rightarrow> ret hs))
          (\<lambda>e. bind
             (logger ERROR (''Failed to check health of '' @ server_names ! i @ '': '' @ exn_str e))
             (\<lambda>_. case dict_append health_status ''unknown'' (server_names ! i) of
                  Inl e' \<Rightarrow> raise e'
                | Inr hs \<Rightarrow> ret hs)))"

fun collect_health ::
  "string list \<Rightarrow> (nat \<times> (exn + string)) list \<Rightarrow> (string \<times> string list) list
     \<Rightarrow> ('c, (string \<times> string list) list) act" where
  "collect_health server_names [] health_status = ret health_status"
| "collect_health server_names (ir # rest) health_status =
     bind (collect_one server_names ir health_status) (collect_health server_names rest)"

text \<open>
  \<^verbatim>\<open>BatchOperations.health_check_instances\<close>. Future \<open>i\<close> is the one submitted for
  \<open>server_names ! i\<close> (the dictionary \<^verbatim>\<open>futures\<close>). The main thread calls nothing
  between two submissions, so the pool's work is one run after the last one.
\<close>

definition health_check_instances ::
  "'c automation \<Rightarrow> schedule \<Rightarrow> string list \<Rightarrow> ('c, (string \<times> string list) list) act" where
  "health_check_instances self sched server_names w =
     (let health_status = [(''healthy'', []), (''unhealthy'', []), (''unknown'', [])];
          futures = foldl (\<lambda>fs n. submit fs (check_instance_health self n)) [] server_names
      in case shutdown_wait (run_order sched) futures w of
           (futures', w1) \<Rightarrow>
             collect_health server_names (as_completed (done_order sched) futures') health_status w1)"

section \<open>Launching one instance\<close>

text \<open>\<^verbatim>\<open>os.getenv(key, default)\<close>\<close>

definition getenv :: "(string \<times> string) list \<Rightarrow> string \<Rightarrow> string \<Rightarrow> string" where
  "getenv env k d = (case map_of env k of None \<Rightarrow> d | Some v \<Rightarrow> v)"

text \<open>\<^verbatim>\<open>OpenStackAutomation._generate_nrdot_userdata\<close>: the boot script, line by line.\<close>

definition generate_nrdot_userdata :: "pyval \<Rightarrow> string \<Rightarrow> string" where
  \<open>generate_nrdot_userdata hostname license_key =
     ''#!/bin/bash'' @ ''\<newline>'' @
     ''# Install NRDOT Collector'' @ ''\<newline>'' @
     ''export NRDOT_VERSION="1.1.0"'' @ ''\<newline>'' @
     ''export NEW_RELIC_LICENSE_KEY="'' @ license_key @ ''"'' @ ''\<newline>'' @
     ''\<newline>'' @
     ''# Update system'' @ ''\<newline>'' @
     ''apt-get update || yum update -y'' @ ''\<newline>'' @
     ''\<newline>'' @
     ''# Install dependencies'' @ ''\<newline>'' @
     ''apt-get install -y wget ca-certificates || yum install -y wget ca-certificates'' @ ''\<newline>'' @
     ''\<newline>'' @
     ''# Detect architecture'' @ ''\<newline>'' @
     ''ARCH=$(uname -m)'' @ ''\<newline>'' @
     ''case $ARCH in'' @ ''\<newline>'' @
     ''    x86_64) ARCH="amd64" ;;'' @ ''\<newline>'' @
     ''    aarch64) ARCH="arm64" ;;'' @ ''\<newline>'' @
     ''esac'' @ ''\<newline>'' @
     ''\<newline>'' @
     ''# Download and install NRDOT'' @ ''\<newline>'' @
     ''if command -v apt-get >/dev/null; then'' @ ''\<newline>'' @
     ''    DEB_FILE="nrdot-collector-host_${NRDOT_VERSION}_linux_${ARCH}.deb"'' @ ''\<newline>'' @
     ''    wget -q -O "/tmp/${DEB_FILE}" "https://github.com/newrelic/nrdot-collector-releases/releases/download/v${NRDOT_VERSION}/${DEB_FILE}"'' @ ''\<newline>'' @
     ''    dpkg -i "/tmp/${DEB_FILE}" || apt-get install -f -y'' @ ''\<newline>'' @
     ''else'' @ ''\<newline>'' @
     ''    RPM_FILE="nrdot-collector-host_${NRDOT_VERSION}_linux_${ARCH}.rpm"'' @ ''\<newline>'' @
     ''    wget -q -O "/tmp/${RPM_FILE}" "https://github.com/newrelic/nrdot-collector-releases/releases/download/v${NRDOT_VERSION}/${RPM_FILE}"'' @ ''\<newline>'' @
     ''    rpm -i "/tmp/${RPM_FILE}" || yum install -y "/tmp/${RPM_FILE}"'' @ ''\<newline>'' @
     ''fi'' @ ''\<newline>'' @
     ''\<newline>'' @
     ''# Configure NRDOT'' @ ''\<newline>'' @
     ''mkdir -p /etc/nrdot-collector-host'' @ ''\<newline>'' @
     ''cat > /etc/nrdot-collector-host/nrdot-collector-host.env << EOF'' @ ''\<newline>'' @
     ''NEW_RELIC_LICENSE_KEY=${NEW_RELIC_LICENSE_KEY}'' @ ''\<newline>'' @
     ''OTEL_EXPORTER_OTLP_ENDPOINT=https://otlp.nr-data.net'' @ ''\<newline>'' @
     ''OTEL_RESOURCE_ATTRIBUTES="service.name=openstack-vm,environment=production,host.id='' @ py_str hostname @ '',cloud.provider=openstack"'' @ ''\<newline>'' @
     ''NEW_RELIC_MEMORY_LIMIT_MIB=100'' @ ''\<newline>'' @
     ''EOF'' @ ''\<newline>'' @
     ''\<newline>'' @
     ''# Update systemd service'' @ ''\<newline>'' @
     ''sed -i '/'' @ [CHR 0x5C] @ ''[Service'' @ [CHR 0x5C] @ '']/a EnvironmentFile=/etc/nrdot-collector-host/nrdot-collector-host.env' '' @ [CHR 0x5C] @ ''\<newline>'' @
     ''    /lib/systemd/system/nrdot-collector-host.service'' @ ''\<newline>'' @
     ''\<newline>'' @
     ''# Start service'' @ ''\<newline>'' @
     ''systemctl daemon-reload'' @ ''\<newline>'' @
     ''systemctl enable nrdot-collector-host'' @ ''\<newline>'' @
     ''systemctl start nrdot-collector-host'' @ ''\<newline>'' @
     ''\<newline>'' @
     ''echo "NRDOT Collector installed and started on '' @ py_str hostname @ ''"'' @ ''\<newline>''\<close>

text \<open>
  The parameters of \<^verbatim>\<open>launch_instance\<close> after \<^verbatim>\<open>self\<close>. Python does not check the
  annotations, so each holds any value.
\<close>

record launch_args =
  la_name :: pyval
  la_image_name :: pyval
  la_flavor_name :: pyval
  la_network_name :: pyval
  la_security_group_name :: pyval
  la_key_name :: pyval
  la_user_data :: pyval
  la_enable_nrdot :: pyval

definition launch_instance_params :: "string list" where
  "launch_instance_params =
     [''name'', ''image_name'', ''flavor_name'', ''network_name'', ''security_group_name'',
      ''key_name'', ''user_data'', ''enable_nrdot'']"

definition kwarg :: "(string \<times> pyval) list \<Rightarrow> string \<Rightarrow> pyval \<Rightarrow> pyval" where
  "kwarg kwargs k d = (case map_of kwargs k of None \<Rightarrow> d | Some v \<Rightarrow> v)"

text \<open>
  How Python binds a call \<^verbatim>\<open>self.launch_instance(**kwargs)\<close> to the signature: a keyword
  that is no parameter is a \<^verbatim>\<open>TypeError\<close>, so is a missing \<^verbatim>\<open>name\<close>; the other
  parameters have the defaults of the signature. The list holds the items of a
  dictionary: its keys are distinct.
\<close>

definition bind_launch_instance :: "(string \<times> pyval) list \<Rightarrow> exn + launch_args" where
  "bind_launch_instance kwargs =
     (case find (\<lambda>kv. fst kv \<notin> set launch_instance_params) kwargs of
        Some kv \<Rightarrow>
          Inl (TypeError (''launch_instance() got an unexpected keyword argument '' @ py_repr (fst kv)))
      | None \<Rightarrow>
          (case map_of kwargs ''name'' of
             None \<Rightarrow>
               Inl (TypeError (''launch_instance() missing 1 required positional argument: '' @ py_repr ''name''))
           | Some n \<Rightarrow>
               Inr \<lparr> la_name = n,
                     la_image_name = kwarg kwargs ''image_name'' (Str ''cirros-0.5.2-x86_64-disk''),
                     la_flavor_name = kwarg kwargs ''flavor_name'' (Str ''m1.small''),
                     la_network_name = kwarg kwargs ''network_name'' NoneV,
                     la_security_group_name = kwarg kwargs ''security_group_name'' NoneV,
                     la_key_name = kwarg kwargs ''key_name'' NoneV,
                     la_user_data = kwarg kwargs ''user_data'' NoneV,
                     la_enable_nrdot = kwarg kwargs ''enable_nrdot'' (Bool True) \<rparr>))"

text \<open>The lookup of the network: a name that is not found leaves the list empty.\<close>

definition get_networks :: "'c automation \<Rightarrow> pyval \<Rightarrow> ('c, (string \<times> string) list list) act" where
  "get_networks self network_name =
     (if truthy network_name then
        bind (sdk (FindNetwork network_name) (find_network (network self) network_name)) (\<lambda>network.
          case network of
            Some n \<Rightarrow> ret [[(''uuid'', net_id n)]]
          | None \<Rightarrow> ret [])
      else ret [])"

text \<open>The lookup of the security group: the same.\<close>

definition get_security_groups ::
  "'c automation \<Rightarrow> pyval \<Rightarrow> ('c, (string \<times> string option) list list) act" where
  "get_security_groups self security_group_name =
     (if truthy security_group_name then
        bind (sdk (FindSecurityGroup security_group_name)
                (find_security_group (network self) security_group_name)) (\<lambda>sg.
          case sg of
            Some g \<Rightarrow> ret [[(''name'', sg_name g)]]
          | None \<Rightarrow> ret [])
      else ret [])"

text \<open>The boot script that reaches \<^verbatim>\<open>create_server\<close>.\<close>

definition get_user_data :: "'c automation \<Rightarrow> launch_args \<Rightarrow> pyval" where
  "get_user_data self a =
     (if truthy (la_enable_nrdot a) \<and> \<not> truthy (la_user_data a) then
        (let new_relic_key = getenv (environ self) ''NEW_RELIC_LICENSE_KEY'' [] in
         if new_relic_key \<noteq> [] then Str (generate_nrdot_userdata (la_name a) new_relic_key)
         else la_user_data a)
      else la_user_data a)"

text \<open>\<^verbatim>\<open>OpenStackAutomation.launch_instance\<close>\<close>

definition launch_instance :: "'c automation \<Rightarrow> launch_args \<Rightarrow> ('c, server) act" where
  "launch_instance self a =
     bind (sdk (FindImage (la_image_name a)) (find_image (compute self) (la_image_name a))) (\<lambda>image.
     case image of
       None \<Rightarrow> raise (ValueError (''Image '' @ py_str (la_image_name a) @ '' not found''))
     | Some img \<Rightarrow>
     bind (sdk (FindFlavor (la_flavor_name a)) (find_flavor (compute self) (la_flavor_name a))) (\<lambda>flavor.
     case flavor of
       None \<Rightarrow> raise (ValueError (''Flavor '' @ py_str (la_flavor_name a) @ '' not found''))
     | Some flv \<Rightarrow>
     bind (get_networks self (la_network_name a)) (\<lambda>networks.
     bind (get_security_groups self (la_security_group_name a)) (\<lambda>security_groups.
     let args = \<lparr> cs_name = la_name a, cs_image_id = img_id img, cs_flavor_id = flv_id flv,
                  cs_networks = networks, cs_security_groups = security_groups,
                  cs_key_name = la_key_name a, cs_user_data = get_user_data self a \<rparr> in
     bind (sdk (CreateServer args) (create_server (compute self) args)) (\<lambda>server.
     bind (sdk (WaitForServer server None None) (wait_for_server (compute self) server None None))
       (\<lambda>server.
     bind (logger INFO (''Instance '' @ srv_name server @ '' is active'')) (\<lambda>_.
     ret server)))))))"

text \<open>A call with keyword arguments: \<^verbatim>\<open>self.launch_instance(**config)\<close>.\<close>

definition launch_instance_kw :: "'c automation \<Rightarrow> (string \<times> pyval) list \<Rightarrow> ('c, server) act" where
  "launch_instance_kw self kwargs =
     (case bind_launch_instance kwargs of
        Inl e \<Rightarrow> raise e
      | Inr a \<Rightarrow> launch_instance self a)"

section \<open>Floating addresses and volumes\<close>

text \<open>\<^verbatim>\<open>OpenStackAutomation.assign_floating_ip\<close>\<close>

definition assign_floating_ip :: "'c automation \<Rightarrow> string \<Rightarrow> ('c, string) act" where
  "assign_floating_ip self server_name =
     bind (sdk (FindServer server_name) (find_server (compute self) server_name)) (\<lambda>server.
     case server of
       None \<Rightarrow> raise (ValueError (''Server '' @ server_name @ '' not found''))
     | Some srv \<Rightarrow>
     bind (sdk ListNetworks (networks (network self))) (\<lambda>nets.
     case find net_is_router_external nets of
       None \<Rightarrow> raise (ValueError ''No external network found'')
     | Some external_net \<Rightarrow>
     bind (sdk (CreateIp (net_id external_net)) (create_ip (network self) (net_id external_net)))
       (\<lambda>floating_ip.
     bind (logger INFO (''Created floating IP: '' @ fip_floating_ip_address floating_ip)) (\<lambda>_.
     bind (sdk (AddFloatingIpToServer srv (fip_floating_ip_address floating_ip))
             (add_floating_ip_to_server (compute self) srv (fip_floating_ip_address floating_ip)))
       (\<lambda>_.
     bind (logger INFO (''Assigned floating IP to '' @ srv_name srv)) (\<lambda>_.
     ret (fip_floating_ip_address floating_ip)))))))"

text \<open>\<^verbatim>\<open>OpenStackAutomation.attach_volume\<close>: both lookups are made before the test.\<close>

definition attach_volume :: "'c automation \<Rightarrow> string \<Rightarrow> string \<Rightarrow> ('c, unit) act" where
  "attach_volume self server_name volume_name =
     bind (sdk (FindServer server_name) (find_server (compute self) server_name)) (\<lambda>server.
     bind (sdk (FindVolume volume_name) (find_volume (volume self) volume_name)) (\<lambda>volume.
     case (server, volume) of
       (Some srv, Some v) \<Rightarrow>
         bind (sdk (CreateVolumeAttachment srv (vol_id v))
                 (create_volume_attachment (compute self) srv (vol_id v))) (\<lambda>_.
         logger INFO (''Attached volume '' @ volume_name @ '' to '' @ server_name))
     | _ \<Rightarrow> raise (ValueError ''Server or volume not found'')))"

section \<open>Batch launch\<close>





section \<open>Batch snapshot\<close>

text \<open>\<^verbatim>\<open>str\<close> of an integer.\<close>

function str_nat :: "nat \<Rightarrow> string" where
  "str_nat n = (if n < 10 then [''0123456789'' ! n] else str_nat (n div 10) @ [''0123456789'' ! (n mod 10)])"
  by pat_completeness auto
termination
  by (relation "measure id") auto

declare str_nat.simps [simp del]

definition str_int :: "int \<Rightarrow> string" where
  "str_int i = (if i < 0 then ''-'' @ str_nat (nat (- i)) else str_nat (nat i))"

record snapshot =
  snap_name :: string
  snap_id :: image






section \<open>Batch resize\<close>

definition append_to ::
  "(string \<times> 'a list) list \<Rightarrow> string \<Rightarrow> 'a \<Rightarrow> ('c, (string \<times> 'a list) list) act" where
  "append_to d k v = (case dict_append d k v of Inl e \<Rightarrow> raise e | Inr d' \<Rightarrow> ret d')"

text \<open>The body of the loop of \<^verbatim>\<open>batch_resize_instances\<close>.\<close>

definition resize_one ::
  "'c automation \<Rightarrow> flavor \<Rightarrow> string \<Rightarrow> string \<Rightarrow> (string \<times> string list) list
     \<Rightarrow> ('c, (string \<times> string list) list) act" where
  "resize_one self flv new_flavor server_name results =
     try_except
       (bind (sdk (FindServer server_name) (find_server (compute self) server_name)) (\<lambda>server.
          case server of
            Some srv \<Rightarrow>
              bind (sdk (ResizeServer srv flv) (resize_server (compute self) srv flv)) (\<lambda>_.
              bind (logger INFO (''Resizing '' @ server_name @ '' to '' @ new_flavor)) (\<lambda>_.
              bind (sdk (WaitForServer srv (Some ''VERIFY_RESIZE'') (Some 300))
                      (wait_for_server (compute self) srv (Some ''VERIFY_RESIZE'') (Some 300)))
                (\<lambda>srv'.
              bind (sdk (ConfirmResizeServer srv') (confirm_resize_server (compute self) srv'))
                (\<lambda>_.
              append_to results ''success'' server_name))))
          | None \<Rightarrow> append_to results ''failed'' server_name))
       (\<lambda>e. bind (logger ERROR (''Failed to resize '' @ server_name @ '': '' @ exn_str e)) (\<lambda>_.
            append_to results ''failed'' server_name))"

fun resize_loop ::
  "'c automation \<Rightarrow> flavor \<Rightarrow> string \<Rightarrow> string list \<Rightarrow> (string \<times> string list) list
     \<Rightarrow> ('c, (string \<times> string list) list) act" where
  "resize_loop self flv new_flavor [] results = ret results"
| "resize_loop self flv new_flavor (server_name # rest) results =
     bind (resize_one self flv new_flavor server_name results) (resize_loop self flv new_flavor rest)"

text \<open>\<^verbatim>\<open>BatchOperations.batch_resize_instances\<close>\<close>

definition batch_resize_instances ::
  "'c automation \<Rightarrow> string list \<Rightarrow> string \<Rightarrow> ('c, (string \<times> string list) list) act" where
  "batch_resize_instances self server_names new_flavor =
     bind (sdk (FindFlavor (Str new_flavor)) (find_flavor (compute self) (Str new_flavor))) (\<lambda>flavor.
     case flavor of
       None \<Rightarrow> raise (ValueError (''Flavor '' @ new_flavor @ '' not found''))
     | Some flv \<Rightarrow> resize_loop self flv new_flavor server_names [(''success'', []), (''failed'', [])])"

section \<open>Rolling update\<close>

fun for_each :: "'a list \<Rightarrow> ('a \<Rightarrow> ('c, unit) act) \<Rightarrow> ('c, unit) act" where
  "for_each [] body = ret ()"
| "for_each (x # xs) body = bind (body x) (\<lambda>_. for_each xs body)"

text \<open>\<^verbatim>\<open>int(time.time())\<close> and \<^verbatim>\<open>time.sleep(n)\<close>.\<close>

definition clock :: "'c automation \<Rightarrow> ('c, int) act" where
  "clock self w = (Inr (time_time self (cloud w)), w)"

definition sleep :: "'c automation \<Rightarrow> nat \<Rightarrow> ('c, unit) act" where
  "sleep self n w = (Inr (), w\<lparr>cloud := time_sleep self n (cloud w), calls := calls w @ [Sleep n]\<rparr>)"

text \<open>The values of \<^verbatim>\<open>range(0, n, step)\<close>; a zero step raises.\<close>

definition py_range :: "nat \<Rightarrow> int \<Rightarrow> exn + nat list" where
  "py_range n step =
     (if step = 0 then Inl (ValueError ''range() arg 3 must not be zero'')
      else if step < 0 then Inr []
      else Inr (map (\<lambda>k. k * nat step) [0..<(n + nat step - 1) div nat step]))"

text \<open>\<^verbatim>\<open>[{'uuid': net['uuid']} for net in server.networks]\<close>\<close>

fun uuid_dicts :: "(string \<times> string) list list \<Rightarrow> exn + (string \<times> string) list list" where
  "uuid_dicts [] = Inr []"
| "uuid_dicts (n # rest) =
     (case map_of n ''uuid'' of
        None \<Rightarrow> Inl (KeyError ''uuid'')
      | Some u \<Rightarrow> (case uuid_dicts rest of Inl e \<Rightarrow> Inl e | Inr ds \<Rightarrow> Inr ([(''uuid'', u)] # ds)))"

definition lift :: "exn + 'a \<Rightarrow> ('c, 'a) act" where
  "lift r = (case r of Inl e \<Rightarrow> raise e | Inr x \<Rightarrow> ret x)"

definition subscript :: "(string \<times> 'a) list \<Rightarrow> string \<Rightarrow> exn + 'a" where
  "subscript d k = (case map_of d k of None \<Rightarrow> Inl (KeyError k) | Some v \<Rightarrow> Inr v)"

text \<open>
  The body of the inner loop of \<^verbatim>\<open>rolling_update\<close>, for one server. The last call
  passes the keywords \<^verbatim>\<open>name\<close>, \<^verbatim>\<open>image_name\<close>, \<^verbatim>\<open>flavor_name\<close> and
  \<^verbatim>\<open>networks\<close> to \<^verbatim>\<open>launch_instance\<close>.
\<close>

definition update_one :: "'c automation \<Rightarrow> string \<Rightarrow> server \<Rightarrow> ('c, unit) act" where
  "update_one self new_image server =
     try_except
       (bind (clock self) (\<lambda>now.
        let snapshot_name = srv_name server @ ''-pre-update-'' @ str_int now in
        bind (sdk (CreateServerImage server snapshot_name)
                (create_server_image (compute self) server snapshot_name)) (\<lambda>_.
        bind (logger INFO (''Created pre-update snapshot: '' @ snapshot_name)) (\<lambda>_.
        bind (lift (uuid_dicts (srv_networks server))) (\<lambda>networks.
        bind (sdk (DeleteServer server) (delete_server (compute self) server)) (\<lambda>_.
        bind (sdk (WaitForDelete server) (wait_for_delete (compute self) server)) (\<lambda>_.
        bind (logger INFO (''Deleted old instance: '' @ srv_name server)) (\<lambda>_.
        bind (lift (subscript (srv_flavor server) ''original_name'')) (\<lambda>flavor_name.
        bind (launch_instance_kw self
                [(''name'', Str (srv_name server)),
                 (''image_name'', Str new_image),
                 (''flavor_name'', Str flavor_name),
                 (''networks'', Dicts networks)]) (\<lambda>new_server.
        logger INFO (''Created new instance: '' @ srv_name new_server)))))))))))
       (\<lambda>e. logger ERROR (''Failed to update '' @ srv_name server @ '': '' @ exn_str e))"

text \<open>
  The outer loop, over the values \<open>i\<close> of the range: the window
  \<^verbatim>\<open>servers[i:i + batch_size]\<close>, then the delay when another window follows.
\<close>

fun update_windows ::
  "'c automation \<Rightarrow> string \<Rightarrow> int \<Rightarrow> server list \<Rightarrow> nat list \<Rightarrow> ('c, unit) act" where
  "update_windows self new_image batch_size matched [] = ret ()"
| "update_windows self new_image batch_size matched (i # rest) =
     (let batch = take (nat batch_size) (drop i matched) in
      bind (logger INFO (''Processing batch: '' @ ''['' @ join '', '' (map (\<lambda>s. py_repr (srv_name s)) batch) @ '']''))
        (\<lambda>_.
      bind (for_each batch (update_one self new_image)) (\<lambda>_.
      bind (if int i + batch_size < int (length matched) then
              bind (logger INFO ''Waiting 30 seconds before next batch...'') (\<lambda>_. sleep self 30)
            else ret ()) (\<lambda>_.
      update_windows self new_image batch_size matched rest))))"

text \<open>\<^verbatim>\<open>BatchOperations.rolling_update\<close>; \<open>matched\<close> is the list \<^verbatim>\<open>servers\<close> of the code.\<close>

definition rolling_update :: "'c automation \<Rightarrow> string \<Rightarrow> string \<Rightarrow> int \<Rightarrow> ('c, unit) act" where
  "rolling_update self server_prefix new_image batch_size =
     bind (sdk ListServers (servers (compute self))) (\<lambda>listed.
     let matched = filter (\<lambda>s. startswith (srv_name s) server_prefix) listed in
     if matched = [] then
       logger WARNING (''No servers found with prefix: '' @ server_prefix)
     else
       bind (lift (py_range (length matched) batch_size)) (\<lambda>starts.
       update_windows self new_image batch_size matched starts))"

section \<open>Cleanup\<close>

text \<open>\<^verbatim>\<open>x.name and x.name.startswith(prefix)\<close>, and \<^verbatim>\<open>{x.name}\<close> in an f-string.\<close>

definition name_matches :: "string option \<Rightarrow> string \<Rightarrow> bool" where
  "name_matches name prefix =
     (case name of None \<Rightarrow> False | Some n \<Rightarrow> n \<noteq> [] \<and> startswith n prefix)"

definition opt_str :: "string option \<Rightarrow> string" where
  "opt_str name = (case name of None \<Rightarrow> ''None'' | Some n \<Rightarrow> n)"

text \<open>The six loops of \<^verbatim>\<open>cleanup_resources\<close>, in the order of the code.\<close>

definition cleanup_servers :: "'c automation \<Rightarrow> string \<Rightarrow> ('c, unit) act" where
  "cleanup_servers self prefix =
     bind (sdk ListServers (servers (compute self))) (\<lambda>listed.
     for_each listed (\<lambda>server.
       if startswith (srv_name server) prefix then
         bind (sdk (DeleteServer server) (delete_server (compute self) server)) (\<lambda>_.
         logger INFO (''Deleted server: '' @ srv_name server))
       else ret ()))"

definition cleanup_volumes :: "'c automation \<Rightarrow> string \<Rightarrow> ('c, unit) act" where
  "cleanup_volumes self prefix =
     bind (sdk ListVolumes (volumes (volume self))) (\<lambda>listed.
     for_each listed (\<lambda>v.
       if name_matches (vol_name v) prefix then
         bind (sdk (DeleteVolume v) (delete_volume (volume self) v)) (\<lambda>_.
         logger INFO (''Deleted volume: '' @ opt_str (vol_name v)))
       else ret ()))"

definition unset :: "string option \<Rightarrow> bool" where
  "unset a = (case a of None \<Rightarrow> True | Some s \<Rightarrow> s = [])"

definition cleanup_floating_ips :: "'c automation \<Rightarrow> ('c, unit) act" where
  "cleanup_floating_ips self =
     bind (sdk ListIps (ips (network self))) (\<lambda>listed.
     for_each listed (\<lambda>fip.
       if unset (fip_fixed_ip_address fip) then
         bind (sdk (DeleteIp fip) (delete_ip (network self) fip)) (\<lambda>_.
         logger INFO (''Deleted floating IP: '' @ fip_floating_ip_address fip))
       else ret ()))"

definition cleanup_routers :: "'c automation \<Rightarrow> string \<Rightarrow> ('c, unit) act" where
  "cleanup_routers self prefix =
     bind (sdk ListRouters (routers (network self))) (\<lambda>listed.
     for_each listed (\<lambda>r.
       if name_matches (rtr_name r) prefix then
         bind (sdk (ListPorts (rtr_id r)) (ports (network self) (rtr_id r))) (\<lambda>ps.
         bind (for_each ps (\<lambda>p.
                 if port_device_owner p = ''network:router_interface'' then
                   sdk (RemoveInterfaceFromRouter r (port_id p))
                     (remove_interface_from_router (network self) r (port_id p))
                 else ret ())) (\<lambda>_.
         bind (sdk (DeleteRouter r) (delete_router (network self) r)) (\<lambda>_.
         logger INFO (''Deleted router: '' @ opt_str (rtr_name r)))))
       else ret ()))"

definition cleanup_networks :: "'c automation \<Rightarrow> string \<Rightarrow> ('c, unit) act" where
  "cleanup_networks self prefix =
     bind (sdk ListNetworks (networks (network self))) (\<lambda>listed.
     for_each listed (\<lambda>n.
       if name_matches (net_name n) prefix then
         bind (sdk (DeleteNetwork n) (delete_network (network self) n)) (\<lambda>_.
         logger INFO (''Deleted network: '' @ opt_str (net_name n)))
       else ret ()))"

definition cleanup_security_groups :: "'c automation \<Rightarrow> string \<Rightarrow> ('c, unit) act" where
  "cleanup_security_groups self prefix =
     bind (sdk ListSecurityGroups (security_groups (network self))) (\<lambda>listed.
     for_each listed (\<lambda>sg.
       if name_matches (sg_name sg) prefix then
         bind (sdk (DeleteSecurityGroup sg) (delete_security_group (network self) sg)) (\<lambda>_.
         logger INFO (''Deleted security group: '' @ opt_str (sg_name sg)))
       else ret ()))"

text \<open>\<^verbatim>\<open>OpenStackAutomation.cleanup_resources\<close>\<close>

definition cleanup_resources :: "'c automation \<Rightarrow> string \<Rightarrow> ('c, unit) act" where
  "cleanup_resources self prefix =
     bind (cleanup_servers self prefix) (\<lambda>_.
     bind (cleanup_volumes self prefix) (\<lambda>_.
     bind (cleanup_floating_ips self) (\<lambda>_.
     bind (cleanup_routers self prefix) (\<lambda>_.
     bind (cleanup_networks self prefix) (\<lambda>_.
     cleanup_security_groups self prefix)))))"

section \<open>Notions used in the statements\<close>

text \<open>A future that the pool has run.\<close>

definition is_finished :: "('c, 'a) future \<Rightarrow> bool" where
  "is_finished f = (case f of Finished r \<Rightarrow> True | Pending t \<Rightarrow> False)"

text \<open>
  The bucket that the loop of \<^verbatim>\<open>health_check_instances\<close> gives to the result of a
  future, and the names of the completed futures that land in bucket \<open>b\<close>.
\<close>

definition bucket_of :: "exn + string \<Rightarrow> string" where
  "bucket_of r =
     (case r of
        Inl e \<Rightarrow> ''unknown''
      | Inr s \<Rightarrow> if s = ''healthy'' \<or> s = ''unhealthy'' then s else ''unknown'')"

definition pick :: "string list \<Rightarrow> string \<Rightarrow> (nat \<times> (exn + string)) list \<Rightarrow> string list" where
  "pick names b L = map (\<lambda>ir. names ! fst ir) (filter (\<lambda>ir. bucket_of (snd ir) = b) L)"

text \<open>
  The classification in the words of the specification, from the outcome of the lookup
  of a name: unknown if the lookup raises or finds nothing; unhealthy if the server is
  not \<^verbatim>\<open>ACTIVE\<close> or has no assigned network address, that is, no network of its
  address mapping carries an address; healthy otherwise.
\<close>

definition health_class :: "exn + server option \<Rightarrow> string" where
  "health_class r =
     (case r of
        Inl e \<Rightarrow> ''unknown''
      | Inr None \<Rightarrow> ''unknown''
      | Inr (Some s) \<Rightarrow>
          if srv_status s \<noteq> ''ACTIVE'' then ''unhealthy''
          else if concat (map snd (srv_addresses s)) = [] then ''unhealthy''
          else ''healthy'')"

text \<open>The outcome of the lookup of a name in a backend.\<close>

definition resolve :: "'c automation \<Rightarrow> 'c \<Rightarrow> string \<Rightarrow> exn + server option" where
  "resolve self c n = fst (find_server (compute self) n c)"

section \<open>An in-memory backend\<close>

text \<open>
  A small backend on which the functions run on concrete inputs: lookups read the
  lists, deletions remove from them, and a server in state \<^verbatim>\<open>ERROR\<close> cannot be resized.
\<close>

record backend =
  be_servers :: "server list"
  be_flavors :: "string list"
  be_images :: "string list"
  be_security_groups :: "string list"
  be_volumes :: "vol list"
  be_ips :: "floating_ip list"
  be_nets :: "net list"
  be_clock :: int

definition mem_named :: "string list \<Rightarrow> pyval \<Rightarrow> string option" where
  "mem_named known v = (case v of Str n \<Rightarrow> (if n \<in> set known then Some n else None) | _ \<Rightarrow> None)"

definition mem_compute :: "backend compute_api" where
  "mem_compute =
     \<lparr> find_server = (\<lambda>n c. (Inr (find (\<lambda>s. srv_name s = n) (be_servers c)), c)),
       find_flavor = (\<lambda>v c. (Inr (map_option (\<lambda>n. \<lparr>flv_id = n\<rparr>) (mem_named (be_flavors c) v)), c)),
       find_image = (\<lambda>v c. (Inr (map_option (\<lambda>n. \<lparr>img_id = n\<rparr>) (mem_named (be_images c) v)), c)),
       servers = (\<lambda>c. (Inr (be_servers c), c)),
       create_server = (\<lambda>a c.
         (let s = \<lparr> srv_id = py_str (cs_name a), srv_name = py_str (cs_name a),
                     srv_status = ''BUILD'', srv_addresses = [],
                     srv_networks = cs_networks a,
                     srv_flavor = [(''original_name'', cs_flavor_id a)] \<rparr>
          in (Inr s, c\<lparr>be_servers := be_servers c @ [s]\<rparr>))),
       wait_for_server = (\<lambda>s st wt c.
         (Inr (s\<lparr>srv_status := (case st of None \<Rightarrow> ''ACTIVE'' | Some x \<Rightarrow> x)\<rparr>), c)),
       delete_server = (\<lambda>s c.
         (Inr (), c\<lparr>be_servers := filter (\<lambda>x. srv_id x \<noteq> srv_id s) (be_servers c)\<rparr>)),
       wait_for_delete = (\<lambda>s c. (Inr (), c)),
       create_server_image = (\<lambda>s n c. (Inr \<lparr>img_id = n\<rparr>, c\<lparr>be_images := be_images c @ [n]\<rparr>)),
       resize_server = (\<lambda>s f c.
         if srv_status s = ''ERROR'' then (Inl (SDKException ''Cannot resize in ERROR state''), c)
         else (Inr (), c)),
       confirm_resize_server = (\<lambda>s c. (Inr (), c)),
       add_floating_ip_to_server = (\<lambda>s a c. (Inr (), c)),
       create_volume_attachment = (\<lambda>s v c. (Inr (), c)) \<rparr>"

definition mem_network :: "backend network_api" where
  "mem_network =
     \<lparr> find_network = (\<lambda>v c.
         (Inr (case v of Str n \<Rightarrow> find (\<lambda>x. net_name x = Some n) (be_nets c) | _ \<Rightarrow> None), c)),
       find_security_group = (\<lambda>v c.
         (Inr (map_option (\<lambda>n. \<lparr>sg_id = n, sg_name = Some n\<rparr>) (mem_named (be_security_groups c) v)), c)),
       networks = (\<lambda>c. (Inr (be_nets c), c)),
       create_ip = (\<lambda>n c.
         (let f = \<lparr>fip_floating_ip_address = ''203.0.113.9'', fip_fixed_ip_address = None\<rparr>
          in (Inr f, c\<lparr>be_ips := be_ips c @ [f]\<rparr>))),
       ips = (\<lambda>c. (Inr (be_ips c), c)),
       delete_ip = (\<lambda>f c. (Inr (), c\<lparr>be_ips := filter (\<lambda>x. x \<noteq> f) (be_ips c)\<rparr>)),
       routers = (\<lambda>c. (Inr [], c)),
       ports = (\<lambda>d c. (Inr [], c)),
       remove_interface_from_router = (\<lambda>r p c. (Inr (), c)),
       delete_router = (\<lambda>r c. (Inr (), c)),
       delete_network = (\<lambda>n c. (Inr (), c\<lparr>be_nets := filter (\<lambda>x. x \<noteq> n) (be_nets c)\<rparr>)),
       security_groups = (\<lambda>c. (Inr (map (\<lambda>n. \<lparr>sg_id = n, sg_name = Some n\<rparr>) (be_security_groups c)), c)),
       delete_security_group = (\<lambda>g c.
         (Inr (), c\<lparr>be_security_groups := filter (\<lambda>n. n \<noteq> sg_id g) (be_security_groups c)\<rparr>)) \<rparr>"

definition mem_volume :: "backend volume_api" where
  "mem_volume =
     \<lparr> find_volume = (\<lambda>n c. (Inr (find (\<lambda>v. vol_name v = Some n) (be_volumes c)), c)),
       volumes = (\<lambda>c. (Inr (be_volumes c), c)),
       delete_volume = (\<lambda>v c. (Inr (), c\<lparr>be_volumes := filter (\<lambda>x. x \<noteq> v) (be_volumes c)\<rparr>)) \<rparr>"

definition mem_sdk :: "backend automation" where
  "mem_sdk =
     \<lparr> compute = mem_compute, network = mem_network, volume = mem_volume,
       environ = [],
       time_time = be_clock,
       time_sleep = (\<lambda>n c. c\<lparr>be_clock := be_clock c + int n\<rparr>) \<rparr>"

definition mem_server :: "string \<Rightarrow> string \<Rightarrow> (string \<times> string list) list \<Rightarrow> server" where
  "mem_server n st addrs =
     \<lparr> srv_id = n, srv_name = n, srv_status = st, srv_addresses = addrs,
       srv_networks = [[(''uuid'', ''net-1'')]], srv_flavor = [(''original_name'', ''m1.small'')] \<rparr>"

definition mem_cloud :: backend where
  "mem_cloud =
     \<lparr> be_servers =
         [mem_server ''web-1'' ''ACTIVE'' [(''private'', [''10.0.0.5''])],
          mem_server ''web-2'' ''SHUTOFF'' [(''private'', [''10.0.0.6''])],
          mem_server ''web-3'' ''ACTIVE'' [],
          mem_server ''web-4'' ''ERROR'' [(''private'', [''10.0.0.8''])],
          mem_server ''web-5'' ''ACTIVE'' [(''private'', [''10.0.0.9''])],
          mem_server ''db-1'' ''ACTIVE'' [(''private'', [''10.0.0.20''])]],
       be_flavors = [''m1.small'', ''m1.large''],
       be_images = [''cirros-0.5.2-x86_64-disk'', ''ubuntu-20.04''],
       be_security_groups = [''auto-app-sg''],
       be_volumes = [\<lparr>vol_id = ''v1'', vol_name = Some ''auto-data-volume''\<rparr>,
                     \<lparr>vol_id = ''v2'', vol_name = None\<rparr>],
       be_ips = [\<lparr>fip_floating_ip_address = ''203.0.113.1'', fip_fixed_ip_address = None\<rparr>,
                 \<lparr>fip_floating_ip_address = ''203.0.113.2'', fip_fixed_ip_address = Some ''10.0.0.5''\<rparr>],
       be_nets = [\<lparr>net_id = ''net-1'', net_name = Some ''auto-app-network'', net_is_router_external = False\<rparr>,
                  \<lparr>net_id = ''ext-1'', net_name = Some ''public'', net_is_router_external = True\<rparr>],
       be_clock = 1700000000 \<rparr>"

definition mem_world :: "backend world" where
  "mem_world = \<lparr> cloud = mem_cloud, calls = [], logs = [] \<rparr>"

definition sched0 :: schedule where
  "sched0 = \<lparr> early = (\<lambda>k. []), run_order = [], done_order = [1, 0] \<rparr>"

text \<open>
  A backend with one server, \<^verbatim>\<open>ACTIVE\<close> and attached to the network \<^verbatim>\<open>private\<close>
  with no address on it: its address mapping is \<^verbatim>\<open>{'private': []}\<close>.
\<close>

definition mem_noip_world :: "backend world" where
  "mem_noip_world =
     \<lparr> cloud = mem_cloud\<lparr>be_servers := [mem_server ''vm-1'' ''ACTIVE'' [(''private'', [])]]\<rparr>,
       calls = [], logs = [] \<rparr>"

text \<open>The floating addresses that a list of calls deletes, in order.\<close>

definition deleted_ips :: "call list \<Rightarrow> floating_ip list" where
  "deleted_ips cs = List.map_filter (\<lambda>c. case c of DeleteIp f \<Rightarrow> Some f | _ \<Rightarrow> None) cs"

text \<open>
  The calls of a cleanup for a prefix: listings, and deletions of a server, volume,
  router, network or security group whose name starts with the prefix, and of a
  floating address with no fixed address.
\<close>

definition cleanup_call :: "string \<Rightarrow> call \<Rightarrow> bool" where
  "cleanup_call prefix c =
     (case c of
        ListServers \<Rightarrow> True
      | DeleteServer s \<Rightarrow> startswith (srv_name s) prefix
      | ListVolumes \<Rightarrow> True
      | DeleteVolume v \<Rightarrow> name_matches (vol_name v) prefix
      | ListIps \<Rightarrow> True
      | DeleteIp f \<Rightarrow> unset (fip_fixed_ip_address f)
      | ListRouters \<Rightarrow> True
      | ListPorts d \<Rightarrow> True
      | RemoveInterfaceFromRouter r p \<Rightarrow> name_matches (rtr_name r) prefix
      | DeleteRouter r \<Rightarrow> name_matches (rtr_name r) prefix
      | ListNetworks \<Rightarrow> True
      | DeleteNetwork n \<Rightarrow> name_matches (net_name n) prefix
      | ListSecurityGroups \<Rightarrow> True
      | DeleteSecurityGroup g \<Rightarrow> name_matches (sg_name g) prefix
      | _ \<Rightarrow> False)"

text \<open>An action that issues only calls with property \<open>P\<close>.\<close>

definition emits :: "(call \<Rightarrow> bool) \<Rightarrow> ('c, 'a) act \<Rightarrow> bool" where
  "emits P m \<longleftrightarrow>
     (\<forall>w r w'. m w = (r, w') \<longrightarrow> (\<exists>new. calls w' = calls w @ new \<and> list_all P new))"

text \<open>The arguments of the first launch of the example \<^verbatim>\<open>main\<close>, with a security group of another name.\<close>

definition launch_args0 :: launch_args where
  "launch_args0 =
     \<lparr> la_name = Str ''auto-app-server-1'',
       la_image_name = Str ''cirros-0.5.2-x86_64-disk'',
       la_flavor_name = Str ''m1.small'',
       la_network_name = Str ''auto-app-network'',
       la_security_group_name = Str ''no-such-sg'',
       la_key_name = NoneV,
       la_user_data = NoneV,
       la_enable_nrdot = Bool True \<rparr>"

text \<open>The calls of a cleanup other than the deletion of a floating address.\<close>

definition other_cleanup_call :: "string \<Rightarrow> call \<Rightarrow> bool" where
  "other_cleanup_call prefix c \<longleftrightarrow> cleanup_call prefix c \<and> (\<forall>f. c \<noteq> DeleteIp f)"

section \<open>Windows and delays of a rolling update\<close>

text \<open>
  What a list of calls shows of the windows: the servers whose update begins (the
  snapshot is the first call of an update), in order, and the delays.
\<close>

definition window_events :: "call list \<Rightarrow> (server + nat) list" where
  "window_events cs =
     List.map_filter
       (\<lambda>c. case c of
          CreateServerImage s n \<Rightarrow> Some (Inl s)
        | Sleep n \<Rightarrow> Some (Inr n)
        | _ \<Rightarrow> None) cs"

text \<open>The servers that a list of calls creates.\<close>

definition created :: "call list \<Rightarrow> create_server_args list" where
  "created cs = List.map_filter (\<lambda>c. case c of CreateServer a \<Rightarrow> Some a | _ \<Rightarrow> None) cs"

text \<open>
  The specification's windows: the list cut into pieces of \<open>n\<close>, the last one shorter
  when the length is no multiple of \<open>n\<close>.
\<close>

function windows :: "nat \<Rightarrow> 'a list \<Rightarrow> 'a list list" where
  "windows n xs = (if n = 0 \<or> xs = [] then [] else take n xs # windows n (drop n xs))"
  by pat_completeness auto
termination
  by (relation "measure (\<lambda>(n, xs). length xs)") auto

declare windows.simps [simp del]

text \<open>
  The specification's delays: the windows in order, with a delay of 30 between two
  consecutive windows and none after the last.
\<close>

fun with_delays :: "'a list list \<Rightarrow> ('a + nat) list" where
  "with_delays [] = []"
| "with_delays [b] = map Inl b"
| "with_delays (b # b' # bs) = map Inl b @ [Inr 30] @ with_delays (b' # bs)"

text \<open>The calls of \<^verbatim>\<open>rolling_update\<close> for one server, after the snapshot.\<close>

definition replace_call :: "server \<Rightarrow> call \<Rightarrow> bool" where
  "replace_call s c \<longleftrightarrow> c = DeleteServer s \<or> c = WaitForDelete s"

text \<open>A call other than \<^verbatim>\<open>create_server\<close>.\<close>

definition no_create :: "call \<Rightarrow> bool" where
  "no_create c \<longleftrightarrow> (\<forall>a. c \<noteq> CreateServer a)"


section \<open>What a batch run records\<close>


text \<open>The names that a list of calls looks up with \<^verbatim>\<open>find_server\<close>, in order.\<close>

definition looked_up :: "call list \<Rightarrow> string list" where
  "looked_up cs = List.map_filter (\<lambda>c. case c of FindServer n \<Rightarrow> Some n | _ \<Rightarrow> None) cs"



section \<open>Runs of the batch snapshot that differ by one name\<close>



text \<open>
  A snapshot name made for one of the names of a list:
  \<^verbatim>\<open>f"{server_name}-snapshot-{int(time.time())}"\<close>.
\<close>

definition snapshot_of :: "string list \<Rightarrow> string \<Rightarrow> bool" where
  "snapshot_of names nm \<longleftrightarrow> (\<exists>m \<in> set names. \<exists>t. nm = m @ ''-snapshot-'' @ str_int t)"
section \<open>The worker pool runs every future\<close>

lemma foldl_submit:
  "foldl (\<lambda>fs n. submit fs (f n)) acc names = acc @ map (\<lambda>n. Pending (f n)) names"
  by (induction names arbitrary: acc) (simp_all add: submit_def)

lemma run_future_length: "run_future i fs w = (fs', w') \<Longrightarrow> length fs' = length fs"
  by (auto simp: run_future_def split: if_splits future.splits prod.splits)

lemma run_pending_length: "run_pending js fs w = (fs', w') \<Longrightarrow> length fs' = length fs"
proof (induction js arbitrary: fs w)
  case Nil
  then show ?case by simp
next
  case (Cons i js)
  obtain fs1 w1 where s: "run_future i fs w = (fs1, w1)" by (cases "run_future i fs w")
  with Cons.prems have "run_pending js fs1 w1 = (fs', w')" by simp
  then have "length fs' = length fs1" by (rule Cons.IH)
  with run_future_length[OF s] show ?case by simp
qed

lemma run_future_keeps:
  "run_future i fs w = (fs', w') \<Longrightarrow> j < length fs \<Longrightarrow> is_finished (fs ! j) \<Longrightarrow> is_finished (fs' ! j)"
  by (auto simp: run_future_def is_finished_def nth_list_update split: if_splits future.splits prod.splits)

lemma run_future_done:
  "run_future i fs w = (fs', w') \<Longrightarrow> i < length fs \<Longrightarrow> is_finished (fs' ! i)"
  by (auto simp: run_future_def is_finished_def split: if_splits future.splits prod.splits)

lemma run_pending_finished:
  "run_pending js fs w = (fs', w') \<Longrightarrow> j < length fs \<Longrightarrow> j \<in> set js \<or> is_finished (fs ! j)
     \<Longrightarrow> is_finished (fs' ! j)"
proof (induction js arbitrary: fs w)
  case Nil
  then show ?case by simp
next
  case (Cons i js)
  obtain fs1 w1 where s: "run_future i fs w = (fs1, w1)" by (cases "run_future i fs w")
  with Cons.prems have r: "run_pending js fs1 w1 = (fs', w')" by simp
  have len: "length fs1 = length fs" by (rule run_future_length[OF s])
  have "j \<in> set js \<or> is_finished (fs1 ! j)"
  proof (cases "is_finished (fs ! j)")
    case True
    then show ?thesis using run_future_keeps[OF s Cons.prems(2)] by simp
  next
    case False
    with Cons.prems(3) have "j = i \<or> j \<in> set js" by auto
    then show ?thesis using run_future_done[OF s] Cons.prems(2) by auto
  qed
  with Cons.IH[OF r] len Cons.prems(2) show ?case by simp
qed

lemma shutdown_wait_finished:
  assumes "shutdown_wait hint fs w = (fs', w')"
  shows "length fs' = length fs" and "\<forall>j < length fs. is_finished (fs' ! j)"
proof -
  from assms have r: "run_pending (hint @ [0..<length fs]) fs w = (fs', w')"
    by (simp add: shutdown_wait_def)
  show "length fs' = length fs" by (rule run_pending_length[OF r])
  show "\<forall>j < length fs. is_finished (fs' ! j)"
    using run_pending_finished[OF r] by auto
qed

lemma completion_order_set: "set (completion_order hint n) = {0..<n}"
  by (auto simp: completion_order_def)

lemma completion_order_distinct: "distinct (completion_order hint n)"
  by (auto simp: completion_order_def)

lemma completion_order_mset: "mset (completion_order hint n) = mset [0..<n]"
  by (rule set_eq_iff_mset_eq_distinct[THEN iffD1])
     (simp_all add: completion_order_set completion_order_distinct)

lemma map_filter_all:
  "\<forall>i \<in> set xs. g i = Some (h i) \<Longrightarrow> List.map_filter g xs = map h xs"
  by (induction xs) (simp_all add: List.map_filter_simps)

lemma as_completed_finished:
  assumes "\<forall>j < length fs. is_finished (fs ! j)"
  shows "\<exists>res. as_completed hint fs = map (\<lambda>i. (i, res i)) (completion_order hint (length fs))
           \<and> (\<forall>i < length fs. fs ! i = Finished (res i))"
proof -
  define res where "res i = (case fs ! i of Finished r \<Rightarrow> r)" for i
  have fin: "fs ! i = Finished (res i)" if "i < length fs" for i
    using assms that by (auto simp: is_finished_def res_def split: future.splits)
  have "as_completed hint fs = map (\<lambda>i. (i, res i)) (completion_order hint (length fs))"
    unfolding as_completed_def
    by (rule map_filter_all) (auto simp: completion_order_set fin)
  with fin show ?thesis by blast
qed



lemma collect_one_bucket:
  "\<exists>w'. collect_one names (i, r) [(''healthy'', h), (''unhealthy'', u), (''unknown'', k)] w =
     (Inr [(''healthy'', h @ pick names ''healthy'' [(i, r)]),
           (''unhealthy'', u @ pick names ''unhealthy'' [(i, r)]),
           (''unknown'', k @ pick names ''unknown'' [(i, r)])], w')"
proof (cases r)
  case (Inl e)
  then show ?thesis
    by (simp add: collect_one_def try_except_def raise_def bind_def logger_def ret_def
        pick_def bucket_of_def)
next
  case (Inr s)
  then show ?thesis
    by (simp add: collect_one_def try_except_def raise_def bind_def logger_def ret_def
        pick_def bucket_of_def)
qed

lemma pick_Cons: "pick names b (ir # L) = pick names b [ir] @ pick names b L"
  by (simp add: pick_def)

lemma collect_health_buckets:
  "\<exists>w'. collect_health names L [(''healthy'', h), (''unhealthy'', u), (''unknown'', k)] w =
     (Inr [(''healthy'', h @ pick names ''healthy'' L),
           (''unhealthy'', u @ pick names ''unhealthy'' L),
           (''unknown'', k @ pick names ''unknown'' L)], w')"
proof (induction L arbitrary: h u k w)
  case Nil
  then show ?case by (simp add: ret_def pick_def)
next
  case (Cons ir L)
  obtain i r where ir: "ir = (i, r)" by (cases ir)
  obtain w1 where one: "collect_one names (i, r) [(''healthy'', h), (''unhealthy'', u), (''unknown'', k)] w =
     (Inr [(''healthy'', h @ pick names ''healthy'' [(i, r)]),
           (''unhealthy'', u @ pick names ''unhealthy'' [(i, r)]),
           (''unknown'', k @ pick names ''unknown'' [(i, r)])], w1)"
    using collect_one_bucket by blast
  obtain w' where rest: "collect_health names L [(''healthy'', h @ pick names ''healthy'' [(i, r)]),
           (''unhealthy'', u @ pick names ''unhealthy'' [(i, r)]),
           (''unknown'', k @ pick names ''unknown'' [(i, r)])] w1 =
     (Inr [(''healthy'', (h @ pick names ''healthy'' [(i, r)]) @ pick names ''healthy'' L),
           (''unhealthy'', (u @ pick names ''unhealthy'' [(i, r)]) @ pick names ''unhealthy'' L),
           (''unknown'', (k @ pick names ''unknown'' [(i, r)]) @ pick names ''unknown'' L)], w')"
    using Cons.IH by blast
  show ?case
    by (simp add: ir bind_def one rest pick_Cons[of names _ "(i, r)" L])
qed

lemma pick_mset:
  "mset (pick names ''healthy'' L @ pick names ''unhealthy'' L @ pick names ''unknown'' L)
     = mset (map (\<lambda>ir. names ! fst ir) L)"
  by (induction L) (auto simp: pick_def bucket_of_def split: sum.splits if_splits)

lemma nth_perm_mset:
  assumes "mset js = mset [0..<length xs]"
  shows "mset (map (\<lambda>i. xs ! i) js) = mset xs"
proof -
  have "mset (map (\<lambda>i. xs ! i) js) = image_mset (\<lambda>i. xs ! i) (mset js)" by simp
  also have "\<dots> = image_mset (\<lambda>i. xs ! i) (mset [0..<length xs])" using assms by simp
  also have "\<dots> = mset (map (\<lambda>i. xs ! i) [0..<length xs])" by simp
  also have "\<dots> = mset xs" by (simp add: map_nth)
  finally show ?thesis .
qed

lemma health_check_buckets:
  "\<exists>futures' w1 w' res.
     shutdown_wait (run_order sched) (map (\<lambda>n. Pending (check_instance_health self n)) names) w
       = (futures', w1) \<and>
     length futures' = length names \<and>
     (\<forall>i < length names. futures' ! i = Finished (res i)) \<and>
     health_check_instances self sched names w =
       (Inr [(''healthy'', pick names ''healthy'' (map (\<lambda>i. (i, res i)) (completion_order (done_order sched) (length names)))),
             (''unhealthy'', pick names ''unhealthy'' (map (\<lambda>i. (i, res i)) (completion_order (done_order sched) (length names)))),
             (''unknown'', pick names ''unknown'' (map (\<lambda>i. (i, res i)) (completion_order (done_order sched) (length names))))],
        w')"
proof -
  let ?fs = "map (\<lambda>n. Pending (check_instance_health self n)) names"
  obtain futures' w1 where sw: "shutdown_wait (run_order sched) ?fs w = (futures', w1)"
    by (cases "shutdown_wait (run_order sched) ?fs w")
  have len: "length futures' = length names"
    using shutdown_wait_finished(1)[OF sw] by simp
  have fin: "\<forall>j < length futures'. is_finished (futures' ! j)"
    using shutdown_wait_finished(2)[OF sw] len by simp
  obtain res where ac: "as_completed (done_order sched) futures' =
        map (\<lambda>i. (i, res i)) (completion_order (done_order sched) (length futures'))"
    and res: "\<forall>i < length futures'. futures' ! i = Finished (res i)"
    using as_completed_finished[OF fin] by blast
  obtain w' where ch: "collect_health names (as_completed (done_order sched) futures')
        [(''healthy'', []), (''unhealthy'', []), (''unknown'', [])] w1 =
      (Inr [(''healthy'', [] @ pick names ''healthy'' (as_completed (done_order sched) futures')),
            (''unhealthy'', [] @ pick names ''unhealthy'' (as_completed (done_order sched) futures')),
            (''unknown'', [] @ pick names ''unknown'' (as_completed (done_order sched) futures'))], w')"
    using collect_health_buckets by blast
  have "health_check_instances self sched names w =
      (Inr [(''healthy'', pick names ''healthy'' (as_completed (done_order sched) futures')),
            (''unhealthy'', pick names ''unhealthy'' (as_completed (done_order sched) futures')),
            (''unknown'', pick names ''unknown'' (as_completed (done_order sched) futures'))], w')"
    using ch by (simp add: health_check_instances_def foldl_submit sw)
  with sw len res ac show ?thesis by (metis (no_types, lifting))
qed

text \<open>
  Claim C1. For every list of server names, every schedule of the pool and every
  behaviour of the SDK, \<^verbatim>\<open>health_check_instances\<close> returns the three buckets
  \<^verbatim>\<open>healthy\<close>, \<^verbatim>\<open>unhealthy\<close>, \<^verbatim>\<open>unknown\<close>, and the three lists together hold
  the input names, each as many times as the input does: no name is dropped, none is
  recorded twice, and a name that occurs once in the input is in exactly one bucket.
\<close>

theorem health_check_partition:
  "\<exists>h u k w'. health_check_instances self sched names w =
       (Inr [(''healthy'', h), (''unhealthy'', u), (''unknown'', k)], w')
     \<and> mset (h @ u @ k) = mset names"
proof -
  obtain res w' where
    "health_check_instances self sched names w =
       (Inr [(''healthy'', pick names ''healthy'' (map (\<lambda>i. (i, res i)) (completion_order (done_order sched) (length names)))),
             (''unhealthy'', pick names ''unhealthy'' (map (\<lambda>i. (i, res i)) (completion_order (done_order sched) (length names)))),
             (''unknown'', pick names ''unknown'' (map (\<lambda>i. (i, res i)) (completion_order (done_order sched) (length names))))],
        w')"
    using health_check_buckets[of sched self names w] by blast
  moreover have "mset (map (\<lambda>ir. names ! fst ir) (map (\<lambda>i. (i, res i)) (completion_order (done_order sched) (length names))))
      = mset names"
    using nth_perm_mset[OF completion_order_mset, of names "done_order sched"]
    by (simp add: comp_def)
  ultimately show ?thesis
    using pick_mset[of names "map (\<lambda>i. (i, res i)) (completion_order (done_order sched) (length names))"]
    by (metis (no_types, lifting))
qed



section \<open>Health classification\<close>

text \<open>
  What \<^verbatim>\<open>_check_instance_health\<close> and the collecting loop do with one name, for every
  SDK and every world: the bucket is the class of the specification, except for an
  \<^verbatim>\<open>ACTIVE\<close> server whose address mapping is not empty and holds no address, which the
  code takes as healthy.
\<close>

lemma check_instance_health_bucket:
  "bucket_of (fst (check_instance_health self n w)) =
     (case resolve self (cloud w) n of
        Inr (Some s) \<Rightarrow>
          if srv_status s = ''ACTIVE'' \<and> srv_addresses s \<noteq> [] \<and>
             concat (map snd (srv_addresses s)) = []
          then ''healthy'' else health_class (Inr (Some s))
      | r \<Rightarrow> health_class r)"
  by (cases "find_server (compute self) n (cloud w)")
     (auto simp: check_instance_health_def bind_def sdk_def ret_def bucket_of_def health_class_def
        resolve_def split: sum.splits option.splits)

text \<open>
  Claim C2 does not hold of the code. The test \<^verbatim>\<open>not server.addresses\<close> (under the
  comment \<^verbatim>\<open># Check if server has IP\<close>) asks whether the address mapping is empty, not
  whether the server has an address. On a backend whose server \<^verbatim>\<open>vm-1\<close> is \<^verbatim>\<open>ACTIVE\<close>
  with the address mapping \<^verbatim>\<open>{'private': []}\<close>, the lookup resolves the name, the
  specification classifies the server as unhealthy, and \<^verbatim>\<open>health_check_instances\<close>
  returns it in the bucket \<^verbatim>\<open>healthy\<close>.
\<close>

theorem health_check_mapping_without_address:
  "resolve mem_sdk (cloud mem_noip_world) ''vm-1'' =
     Inr (Some (mem_server ''vm-1'' ''ACTIVE'' [(''private'', [])])) \<and>
   health_class (resolve mem_sdk (cloud mem_noip_world) ''vm-1'') = ''unhealthy'' \<and>
   fst (health_check_instances mem_sdk sched0 [''vm-1''] mem_noip_world) =
     Inr [(''healthy'', [''vm-1'']), (''unhealthy'', []), (''unknown'', [])]"
  by (simp add: resolve_def health_class_def health_check_instances_def submit_def
      shutdown_wait_def run_future_def as_completed_def completion_order_def
      List.map_filter_simps collect_one_def check_instance_health_def
      bind_def ret_def raise_def sdk_def try_except_def
      mem_noip_world_def mem_sdk_def mem_compute_def mem_cloud_def mem_server_def sched0_def)

section \<open>Resize with an unknown flavor\<close>

text \<open>
  Claim C3. When the lookup of the target flavor finds nothing,
  \<^verbatim>\<open>batch_resize_instances\<close> raises \<^verbatim>\<open>ValueError\<close>, for every list of server names;
  the lookup of the flavor is the only call issued (no lookup of a server, no resize, no
  wait, no confirmation), the backend is as the lookup left it and nothing is logged.
\<close>

theorem resize_unknown_flavor_fails_first:
  assumes "find_flavor (compute self) (Str new_flavor) (cloud w) = (Inr None, c')"
  shows "batch_resize_instances self server_names new_flavor w =
     (Inl (ValueError (''Flavor '' @ new_flavor @ '' not found'')),
      w\<lparr>cloud := c', calls := calls w @ [FindFlavor (Str new_flavor)]\<rparr>)"
  using assms by (simp add: batch_resize_instances_def bind_def sdk_def raise_def)

theorem resize_unknown_flavor_fails_first_witness:
  "find_flavor (compute mem_sdk) (Str ''m1.huge'') (cloud mem_world) = (Inr None, mem_cloud) \<and>
   batch_resize_instances mem_sdk [''web-1'', ''web-2''] ''m1.huge'' mem_world =
     (Inl (ValueError ''Flavor m1.huge not found''),
      \<lparr>cloud = mem_cloud, calls = [FindFlavor (Str ''m1.huge'')], logs = []\<rparr>)"
proof -
  have f: "find_flavor (compute mem_sdk) (Str ''m1.huge'') (cloud mem_world) = (Inr None, mem_cloud)"
    by (simp add: mem_sdk_def mem_compute_def mem_world_def mem_cloud_def mem_named_def)
  show ?thesis
    using resize_unknown_flavor_fails_first[OF f, of "[''web-1'', ''web-2'']"] f
    by (simp add: mem_world_def)
qed


section \<open>Rolling update with no matching server\<close>

text \<open>
  Claim C10. When the listing of the servers returns no server whose name starts with
  the prefix, \<^verbatim>\<open>rolling_update\<close> returns at once: the listing is its only call (no
  snapshot, no deletion, no creation), the backend is as the listing left it, and one
  warning is logged.
\<close>

theorem rolling_update_no_match:
  assumes "servers (compute self) (cloud w) = (Inr listed, c')"
    and "filter (\<lambda>s. startswith (srv_name s) server_prefix) listed = []"
  shows "rolling_update self server_prefix new_image batch_size w =
     (Inr (),
      w\<lparr>cloud := c', calls := calls w @ [ListServers],
        logs := logs w @ [(WARNING, ''No servers found with prefix: '' @ server_prefix)]\<rparr>)"
  using assms by (simp add: rolling_update_def bind_def sdk_def logger_def)

theorem rolling_update_no_match_witness:
  "servers (compute mem_sdk) (cloud mem_world) = (Inr (be_servers mem_cloud), mem_cloud) \<and>
   filter (\<lambda>s. startswith (srv_name s) ''api-'') (be_servers mem_cloud) = [] \<and>
   rolling_update mem_sdk ''api-'' ''ubuntu-20.04'' 2 mem_world =
     (Inr (),
      \<lparr>cloud = mem_cloud, calls = [ListServers],
       logs = [(WARNING, ''No servers found with prefix: api-'')]\<rparr>)"
proof -
  have l: "servers (compute mem_sdk) (cloud mem_world) = (Inr (be_servers mem_cloud), mem_cloud)"
    by (simp add: mem_sdk_def mem_compute_def mem_world_def)
  have n: "filter (\<lambda>s. startswith (srv_name s) ''api-'') (be_servers mem_cloud) = []"
    by (simp add: mem_cloud_def mem_server_def startswith_def)
  show ?thesis
    using rolling_update_no_match[OF l n, of "''ubuntu-20.04''" 2] l n
    by (simp add: mem_world_def)
qed


section \<open>Single-target operations and resources that are not found\<close>

text \<open>
  Claim C8 as stated fails for the security group: \<^verbatim>\<open>launch_instance\<close> with the name
  of a security group that the backend does not know returns the new server.
\<close>

theorem launch_missing_security_group_counterexample:
  "fst (find_security_group (network mem_sdk) (Str ''no-such-sg'') mem_cloud) = Inr None \<and>
   fst (launch_instance mem_sdk launch_args0 mem_world) =
     Inr \<lparr> srv_id = ''auto-app-server-1'', srv_name = ''auto-app-server-1'',
           srv_status = ''ACTIVE'', srv_addresses = [],
           srv_networks = [[(''uuid'', ''net-1'')]],
           srv_flavor = [(''original_name'', ''m1.small'')] \<rparr>"
  by code_simp


text \<open>
  Claim C8, amended. \<^verbatim>\<open>launch_instance\<close> raises \<^verbatim>\<open>ValueError\<close> when the image is not
  found, and when the flavor is not found; \<^verbatim>\<open>assign_floating_ip\<close> raises it when the
  server is not found; \<^verbatim>\<open>attach_volume\<close> raises it, after both lookups, when the server
  or the volume is not found. In each case the lookups are the only calls issued and the
  exception leaves the function. A security group that is not found raises nothing:
  \<^verbatim>\<open>launch_instance\<close> goes on to \<^verbatim>\<open>create_server\<close> with an empty list of security
  groups.
\<close>

theorem single_target_not_found:
  "(find_image (compute self) (la_image_name a) (cloud w) = (Inr None, ca) \<longrightarrow>
      launch_instance self a w =
        (Inl (ValueError (''Image '' @ py_str (la_image_name a) @ '' not found'')),
         w\<lparr>cloud := ca, calls := calls w @ [FindImage (la_image_name a)]\<rparr>))
   \<and> (find_image (compute self) (la_image_name a) (cloud w) = (Inr (Some img), ca) \<and>
      find_flavor (compute self) (la_flavor_name a) ca = (Inr None, cb) \<longrightarrow>
      launch_instance self a w =
        (Inl (ValueError (''Flavor '' @ py_str (la_flavor_name a) @ '' not found'')),
         w\<lparr>cloud := cb,
           calls := calls w @ [FindImage (la_image_name a), FindFlavor (la_flavor_name a)]\<rparr>))
   \<and> (find_server (compute self) n (cloud w) = (Inr None, ca) \<longrightarrow>
      assign_floating_ip self n w =
        (Inl (ValueError (''Server '' @ n @ '' not found'')),
         w\<lparr>cloud := ca, calls := calls w @ [FindServer n]\<rparr>))
   \<and> (find_server (compute self) n (cloud w) = (Inr srv, ca) \<and>
      find_volume (volume self) v ca = (Inr vl, cb) \<and> (srv = None \<or> vl = None) \<longrightarrow>
      attach_volume self n v w =
        (Inl (ValueError ''Server or volume not found''),
         w\<lparr>cloud := cb, calls := calls w @ [FindServer n, FindVolume v]\<rparr>))
   \<and> (find_image (compute self) (la_image_name a) (cloud w) = (Inr (Some img), ca) \<and>
      find_flavor (compute self) (la_flavor_name a) ca = (Inr (Some flv), cb) \<and>
      get_networks self (la_network_name a)
        (w\<lparr>cloud := cb,
           calls := calls w @ [FindImage (la_image_name a), FindFlavor (la_flavor_name a)]\<rparr>)
        = (Inr nets, wn) \<and>
      truthy (la_security_group_name a) \<and>
      find_security_group (network self) (la_security_group_name a) (cloud wn) = (Inr None, cd) \<longrightarrow>
      take (length (calls wn) + 2) (calls (snd (launch_instance self a w))) =
        calls wn @
        [FindSecurityGroup (la_security_group_name a),
         CreateServer \<lparr> cs_name = la_name a, cs_image_id = img_id img, cs_flavor_id = flv_id flv,
                        cs_networks = nets, cs_security_groups = [],
                        cs_key_name = la_key_name a, cs_user_data = get_user_data self a \<rparr>])"
proof (intro conjI impI)
  assume "find_image (compute self) (la_image_name a) (cloud w) = (Inr None, ca)"
  then show "launch_instance self a w =
        (Inl (ValueError (''Image '' @ py_str (la_image_name a) @ '' not found'')),
         w\<lparr>cloud := ca, calls := calls w @ [FindImage (la_image_name a)]\<rparr>)"
    by (simp add: launch_instance_def bind_def sdk_def raise_def)
next
  assume "find_image (compute self) (la_image_name a) (cloud w) = (Inr (Some img), ca) \<and>
      find_flavor (compute self) (la_flavor_name a) ca = (Inr None, cb)"
  then show "launch_instance self a w =
        (Inl (ValueError (''Flavor '' @ py_str (la_flavor_name a) @ '' not found'')),
         w\<lparr>cloud := cb,
           calls := calls w @ [FindImage (la_image_name a), FindFlavor (la_flavor_name a)]\<rparr>)"
    by (simp add: launch_instance_def bind_def sdk_def raise_def)
next
  assume "find_server (compute self) n (cloud w) = (Inr None, ca)"
  then show "assign_floating_ip self n w =
        (Inl (ValueError (''Server '' @ n @ '' not found'')),
         w\<lparr>cloud := ca, calls := calls w @ [FindServer n]\<rparr>)"
    by (simp add: assign_floating_ip_def bind_def sdk_def raise_def)
next
  assume "find_server (compute self) n (cloud w) = (Inr srv, ca) \<and>
      find_volume (volume self) v ca = (Inr vl, cb) \<and> (srv = None \<or> vl = None)"
  then show "attach_volume self n v w =
        (Inl (ValueError ''Server or volume not found''),
         w\<lparr>cloud := cb, calls := calls w @ [FindServer n, FindVolume v]\<rparr>)"
    by (auto simp: attach_volume_def bind_def sdk_def raise_def split: option.splits)
next
  assume h: "find_image (compute self) (la_image_name a) (cloud w) = (Inr (Some img), ca) \<and>
      find_flavor (compute self) (la_flavor_name a) ca = (Inr (Some flv), cb) \<and>
      get_networks self (la_network_name a)
        (w\<lparr>cloud := cb,
           calls := calls w @ [FindImage (la_image_name a), FindFlavor (la_flavor_name a)]\<rparr>)
        = (Inr nets, wn) \<and>
      truthy (la_security_group_name a) \<and>
      find_security_group (network self) (la_security_group_name a) (cloud wn) = (Inr None, cd)"
  let ?args = "\<lparr> cs_name = la_name a, cs_image_id = img_id img, cs_flavor_id = flv_id flv,
                        cs_networks = nets, cs_security_groups = [],
                        cs_key_name = la_key_name a, cs_user_data = get_user_data self a \<rparr>"
  obtain r ce where cs: "create_server (compute self) ?args cd = (r, ce)"
    by (cases "create_server (compute self) ?args cd")
  show "take (length (calls wn) + 2) (calls (snd (launch_instance self a w))) =
        calls wn @ [FindSecurityGroup (la_security_group_name a), CreateServer ?args]"
  proof (cases r)
    case (Inl e)
    with h cs show ?thesis
      by (simp add: launch_instance_def bind_def sdk_def raise_def ret_def get_security_groups_def Let_def)
  next
    case (Inr s)
    obtain r' cf where ws: "wait_for_server (compute self) s None None ce = (r', cf)"
      by (cases "wait_for_server (compute self) s None None ce")
    with h cs Inr show ?thesis
      by (cases r')
         (simp_all add: launch_instance_def bind_def sdk_def raise_def ret_def logger_def
            get_security_groups_def Let_def)
  qed
qed

theorem single_target_not_found_witness:
  "launch_instance mem_sdk (launch_args0\<lparr>la_image_name := Str ''nope''\<rparr>) mem_world =
     (Inl (ValueError ''Image nope not found''),
      \<lparr>cloud = mem_cloud, calls = [FindImage (Str ''nope'')], logs = []\<rparr>)
   \<and> launch_instance mem_sdk (launch_args0\<lparr>la_flavor_name := Str ''m1.huge''\<rparr>) mem_world =
     (Inl (ValueError ''Flavor m1.huge not found''),
      \<lparr>cloud = mem_cloud,
       calls = [FindImage (Str ''cirros-0.5.2-x86_64-disk''), FindFlavor (Str ''m1.huge'')],
       logs = []\<rparr>)
   \<and> assign_floating_ip mem_sdk ''ghost'' mem_world =
     (Inl (ValueError ''Server ghost not found''),
      \<lparr>cloud = mem_cloud, calls = [FindServer ''ghost''], logs = []\<rparr>)
   \<and> attach_volume mem_sdk ''web-1'' ''no-volume'' mem_world =
     (Inl (ValueError ''Server or volume not found''),
      \<lparr>cloud = mem_cloud, calls = [FindServer ''web-1'', FindVolume ''no-volume''], logs = []\<rparr>)
   \<and> take 5 (calls (snd (launch_instance mem_sdk launch_args0 mem_world))) =
     [FindImage (Str ''cirros-0.5.2-x86_64-disk''), FindFlavor (Str ''m1.small''),
      FindNetwork (Str ''auto-app-network''), FindSecurityGroup (Str ''no-such-sg''),
      CreateServer \<lparr> cs_name = Str ''auto-app-server-1'', cs_image_id = ''cirros-0.5.2-x86_64-disk'',
                     cs_flavor_id = ''m1.small'', cs_networks = [[(''uuid'', ''net-1'')]],
                     cs_security_groups = [], cs_key_name = NoneV, cs_user_data = NoneV \<rparr>]"
proof (intro conjI)
  have h: "find_image (compute mem_sdk) (la_image_name (launch_args0\<lparr>la_image_name := Str ''nope''\<rparr>))
       (cloud mem_world) = (Inr None, mem_cloud)"
    by (simp add: mem_sdk_def mem_compute_def mem_world_def mem_cloud_def mem_named_def)
  show "launch_instance mem_sdk (launch_args0\<lparr>la_image_name := Str ''nope''\<rparr>) mem_world =
     (Inl (ValueError ''Image nope not found''),
      \<lparr>cloud = mem_cloud, calls = [FindImage (Str ''nope'')], logs = []\<rparr>)"
    using single_target_not_found[THEN conjunct1, rule_format, OF h]
    by (simp add: mem_world_def)
next
  have h1: "find_image (compute mem_sdk) (la_image_name (launch_args0\<lparr>la_flavor_name := Str ''m1.huge''\<rparr>))
       (cloud mem_world) = (Inr (Some \<lparr>img_id = ''cirros-0.5.2-x86_64-disk''\<rparr>), mem_cloud)"
    by (simp add: mem_sdk_def mem_compute_def mem_world_def mem_cloud_def mem_named_def launch_args0_def)
  have h2: "find_flavor (compute mem_sdk) (la_flavor_name (launch_args0\<lparr>la_flavor_name := Str ''m1.huge''\<rparr>))
       mem_cloud = (Inr None, mem_cloud)"
    by (simp add: mem_sdk_def mem_compute_def mem_world_def mem_cloud_def mem_named_def launch_args0_def)
  show "launch_instance mem_sdk (launch_args0\<lparr>la_flavor_name := Str ''m1.huge''\<rparr>) mem_world =
     (Inl (ValueError ''Flavor m1.huge not found''),
      \<lparr>cloud = mem_cloud,
       calls = [FindImage (Str ''cirros-0.5.2-x86_64-disk''), FindFlavor (Str ''m1.huge'')],
       logs = []\<rparr>)"
    using single_target_not_found[THEN conjunct2, THEN conjunct1, rule_format, OF conjI[OF h1 h2]]
    by (simp add: mem_world_def launch_args0_def)
next
  have h: "find_server (compute mem_sdk) ''ghost'' (cloud mem_world) = (Inr None, mem_cloud)"
    by (simp add: mem_sdk_def mem_compute_def mem_world_def mem_cloud_def mem_server_def)
  show "assign_floating_ip mem_sdk ''ghost'' mem_world =
     (Inl (ValueError ''Server ghost not found''),
      \<lparr>cloud = mem_cloud, calls = [FindServer ''ghost''], logs = []\<rparr>)"
    using single_target_not_found[THEN conjunct2, THEN conjunct2, THEN conjunct1, rule_format, OF h]
    by (simp add: mem_world_def)
next
  have h1: "find_server (compute mem_sdk) ''web-1'' (cloud mem_world) =
      (Inr (Some (mem_server ''web-1'' ''ACTIVE'' [(''private'', [''10.0.0.5''])])), mem_cloud)"
    by (simp add: mem_sdk_def mem_compute_def mem_world_def mem_cloud_def mem_server_def)
  have h2: "find_volume (volume mem_sdk) ''no-volume'' mem_cloud = (Inr None, mem_cloud)"
    by (simp add: mem_sdk_def mem_volume_def mem_cloud_def)
  have h3: "Some (mem_server ''web-1'' ''ACTIVE'' [(''private'', [''10.0.0.5''])]) = None
      \<or> (None :: vol option) = None"
    by simp
  show "attach_volume mem_sdk ''web-1'' ''no-volume'' mem_world =
     (Inl (ValueError ''Server or volume not found''),
      \<lparr>cloud = mem_cloud, calls = [FindServer ''web-1'', FindVolume ''no-volume''], logs = []\<rparr>)"
    using single_target_not_found[THEN conjunct2, THEN conjunct2, THEN conjunct2, THEN conjunct1,
        rule_format, OF conjI[OF h1 conjI[OF h2 h3]]]
    by (simp add: mem_world_def)
next
  let ?w2 = "mem_world\<lparr>cloud := mem_cloud,
      calls := calls mem_world @ [FindImage (la_image_name launch_args0), FindFlavor (la_flavor_name launch_args0)]\<rparr>"
  let ?wn = "\<lparr>cloud = mem_cloud,
      calls = [FindImage (Str ''cirros-0.5.2-x86_64-disk''), FindFlavor (Str ''m1.small''),
               FindNetwork (Str ''auto-app-network'')], logs = []\<rparr>"
  have h1: "find_image (compute mem_sdk) (la_image_name launch_args0) (cloud mem_world)
      = (Inr (Some \<lparr>img_id = ''cirros-0.5.2-x86_64-disk''\<rparr>), mem_cloud)"
    by (simp add: mem_sdk_def mem_compute_def mem_world_def mem_cloud_def mem_named_def launch_args0_def)
  have h2: "find_flavor (compute mem_sdk) (la_flavor_name launch_args0) mem_cloud
      = (Inr (Some \<lparr>flv_id = ''m1.small''\<rparr>), mem_cloud)"
    by (simp add: mem_sdk_def mem_compute_def mem_cloud_def mem_named_def launch_args0_def)
  have h3: "get_networks mem_sdk (la_network_name launch_args0) ?w2 = (Inr [[(''uuid'', ''net-1'')]], ?wn)"
    by (simp add: get_networks_def bind_def sdk_def ret_def mem_sdk_def mem_network_def
        mem_world_def mem_cloud_def launch_args0_def)
  have h4: "truthy (la_security_group_name launch_args0)"
    by (simp add: launch_args0_def)
  have h5: "find_security_group (network mem_sdk) (la_security_group_name launch_args0) (cloud ?wn)
      = (Inr None, mem_cloud)"
    by (simp add: mem_sdk_def mem_network_def mem_cloud_def mem_named_def launch_args0_def)
  have u: "get_user_data mem_sdk launch_args0 = NoneV"
    by (simp add: get_user_data_def launch_args0_def mem_sdk_def getenv_def)
  show "take 5 (calls (snd (launch_instance mem_sdk launch_args0 mem_world))) =
     [FindImage (Str ''cirros-0.5.2-x86_64-disk''), FindFlavor (Str ''m1.small''),
      FindNetwork (Str ''auto-app-network''), FindSecurityGroup (Str ''no-such-sg''),
      CreateServer \<lparr> cs_name = Str ''auto-app-server-1'', cs_image_id = ''cirros-0.5.2-x86_64-disk'',
                     cs_flavor_id = ''m1.small'', cs_networks = [[(''uuid'', ''net-1'')]],
                     cs_security_groups = [], cs_key_name = NoneV, cs_user_data = NoneV \<rparr>]"
    using single_target_not_found[THEN conjunct2, THEN conjunct2, THEN conjunct2, THEN conjunct2,
        rule_format, OF conjI[OF h1 conjI[OF h2 conjI[OF h3 conjI[OF h4 h5]]]]]
    by (simp add: launch_args0_def eval_nat_numeral get_user_data_def getenv_def mem_sdk_def)
qed


section \<open>The calls an action issues\<close>

lemma emitsI:
  "(\<And>w r w'. m w = (r, w') \<Longrightarrow> \<exists>new. calls w' = calls w @ new \<and> list_all P new) \<Longrightarrow> emits P m"
  by (auto simp: emits_def)

lemma emitsD:
  "emits P m \<Longrightarrow> m w = (r, w') \<Longrightarrow> \<exists>new. calls w' = calls w @ new \<and> list_all P new"
  by (auto simp: emits_def)

lemma emits_ret: "emits P (ret x)"
  by (simp add: emits_def ret_def)

lemma emits_raise: "emits P (raise e)"
  by (simp add: emits_def raise_def)

lemma emits_logger: "emits P (logger l msg)"
  by (auto simp: emits_def logger_def)

lemma emits_sdk: "P ev \<Longrightarrow> emits P (sdk ev f)"
  by (auto simp: emits_def sdk_def split: prod.splits)

lemma emits_lift: "emits P (lift r)"
  by (cases r) (simp_all add: lift_def emits_ret emits_raise)

lemma emits_clock: "emits P (clock self)"
  by (simp add: emits_def clock_def)

lemma emits_bind:
  assumes "emits P m" and "\<And>x. emits P (f x)"
  shows "emits P (bind m f)"
proof (rule emitsI)
  fix w r w'
  assume b: "bind m f w = (r, w')"
  obtain r1 w1 where m: "m w = (r1, w1)" by (cases "m w")
  from emitsD[OF assms(1) m] obtain n1 where n1: "calls w1 = calls w @ n1" "list_all P n1"
    by blast
  show "\<exists>new. calls w' = calls w @ new \<and> list_all P new"
  proof (cases r1)
    case (Inl e)
    with b m n1 show ?thesis by (auto simp: bind_def)
  next
    case (Inr x)
    with b m have "f x w1 = (r, w')" by (simp add: bind_def)
    from emitsD[OF assms(2) this] obtain n2 where "calls w' = calls w1 @ n2" "list_all P n2"
      by blast
    with n1 show ?thesis by auto
  qed
qed

lemma emits_try_except:
  assumes "emits P m" and "\<And>e. emits P (h e)"
  shows "emits P (try_except m h)"
proof (rule emitsI)
  fix w r w'
  assume b: "try_except m h w = (r, w')"
  obtain r1 w1 where m: "m w = (r1, w1)" by (cases "m w")
  from emitsD[OF assms(1) m] obtain n1 where n1: "calls w1 = calls w @ n1" "list_all P n1"
    by blast
  show "\<exists>new. calls w' = calls w @ new \<and> list_all P new"
  proof (cases r1)
    case (Inr x)
    with b m n1 show ?thesis by (auto simp: try_except_def)
  next
    case (Inl e)
    with b m have "h e w1 = (r, w')" by (simp add: try_except_def)
    from emitsD[OF assms(2) this] obtain n2 where "calls w' = calls w1 @ n2" "list_all P n2"
      by blast
    with n1 show ?thesis by auto
  qed
qed

lemma emits_for_each:
  assumes "\<And>x. emits P (body x)"
  shows "emits P (for_each xs body)"
  by (induction xs) (auto intro: emits_ret emits_bind assms)

lemma emits_if: "(b \<Longrightarrow> emits P m) \<Longrightarrow> (\<not> b \<Longrightarrow> emits P n) \<Longrightarrow> emits P (if b then m else n)"
  by simp

lemma emits_mono: "emits P m \<Longrightarrow> (\<And>c. P c \<Longrightarrow> Q c) \<Longrightarrow> emits Q m"
  unfolding emits_def by (metis (mono_tags, lifting) list.pred_mono_strong)

section \<open>Cleanup\<close>

lemma cleanup_servers_emits: "emits (other_cleanup_call prefix) (cleanup_servers self prefix)"
  unfolding cleanup_servers_def
  by (intro emits_bind emits_for_each emits_if emits_sdk emits_logger emits_ret)
     (simp_all add: other_cleanup_call_def cleanup_call_def)

lemma cleanup_volumes_emits: "emits (other_cleanup_call prefix) (cleanup_volumes self prefix)"
  unfolding cleanup_volumes_def
  by (intro emits_bind emits_for_each emits_if emits_sdk emits_logger emits_ret)
     (simp_all add: other_cleanup_call_def cleanup_call_def)

lemma cleanup_routers_emits: "emits (other_cleanup_call prefix) (cleanup_routers self prefix)"
  unfolding cleanup_routers_def
  by (intro emits_bind emits_for_each emits_if emits_sdk emits_logger emits_ret)
     (simp_all add: other_cleanup_call_def cleanup_call_def)

lemma cleanup_networks_emits: "emits (other_cleanup_call prefix) (cleanup_networks self prefix)"
  unfolding cleanup_networks_def
  by (intro emits_bind emits_for_each emits_if emits_sdk emits_logger emits_ret)
     (simp_all add: other_cleanup_call_def cleanup_call_def)

lemma cleanup_security_groups_emits:
  "emits (other_cleanup_call prefix) (cleanup_security_groups self prefix)"
  unfolding cleanup_security_groups_def
  by (intro emits_bind emits_for_each emits_if emits_sdk emits_logger emits_ret)
     (simp_all add: other_cleanup_call_def cleanup_call_def)

lemma deleted_ips_append: "deleted_ips (xs @ ys) = deleted_ips xs @ deleted_ips ys"
  by (simp add: deleted_ips_def List.map_filter_def)

lemma deleted_ips_other: "list_all (other_cleanup_call prefix) new \<Longrightarrow> deleted_ips new = []"
  by (induction new)
     (auto simp: deleted_ips_def List.map_filter_simps other_cleanup_call_def split: call.splits)

lemma other_cleanup_call_all:
  "list_all (other_cleanup_call prefix) new \<Longrightarrow> list_all (cleanup_call prefix) new"
  by (induction new) (auto simp: other_cleanup_call_def)

lemma delete_ips_loop:
  "for_each listed (\<lambda>fip.
       if unset (fip_fixed_ip_address fip) then
         bind (sdk (DeleteIp fip) (delete_ip (network self) fip)) (\<lambda>_.
         logger INFO (''Deleted floating IP: '' @ fip_floating_ip_address fip))
       else ret ()) w = (Inr (), w')
   \<Longrightarrow> calls w' = calls w @ map DeleteIp (filter (\<lambda>f. unset (fip_fixed_ip_address f)) listed)"
proof (induction listed arbitrary: w)
  case Nil
  then show ?case by (simp add: ret_def)
next
  case (Cons f listed)
  show ?case
  proof (cases "unset (fip_fixed_ip_address f)")
    case False
    with Cons.prems have "for_each listed (\<lambda>fip.
       if unset (fip_fixed_ip_address fip) then
         bind (sdk (DeleteIp fip) (delete_ip (network self) fip)) (\<lambda>_.
         logger INFO (''Deleted floating IP: '' @ fip_floating_ip_address fip))
       else ret ()) w = (Inr (), w')"
      by (simp add: bind_def ret_def)
    from Cons.IH[OF this] False show ?thesis by simp
  next
    case True
    obtain r c1 where d: "delete_ip (network self) f (cloud w) = (r, c1)"
      by (cases "delete_ip (network self) f (cloud w)")
    let ?w1 = "w\<lparr>cloud := c1, calls := calls w @ [DeleteIp f],
                 logs := logs w @ [(INFO, ''Deleted floating IP: '' @ fip_floating_ip_address f)]\<rparr>"
    from Cons.prems True d have r: "r = Inr ()"
      by (cases r) (auto simp: bind_def sdk_def logger_def)
    with Cons.prems True d have "for_each listed (\<lambda>fip.
       if unset (fip_fixed_ip_address fip) then
         bind (sdk (DeleteIp fip) (delete_ip (network self) fip)) (\<lambda>_.
         logger INFO (''Deleted floating IP: '' @ fip_floating_ip_address fip))
       else ret ()) ?w1 = (Inr (), w')"
      by (simp add: bind_def sdk_def logger_def)
    from Cons.IH[OF this] True show ?thesis by simp
  qed
qed

lemma cleanup_floating_ips_calls:
  assumes "cleanup_floating_ips self w = (Inr (), w')"
  shows "\<exists>listed c. ips (network self) (cloud w) = (Inr listed, c) \<and>
     calls w' = calls w @ ListIps # map DeleteIp (filter (\<lambda>f. unset (fip_fixed_ip_address f)) listed)"
proof -
  obtain r c where l: "ips (network self) (cloud w) = (r, c)"
    by (cases "ips (network self) (cloud w)")
  from assms l obtain listed where r: "r = Inr listed"
    by (cases r) (auto simp: cleanup_floating_ips_def bind_def sdk_def)
  from assms l r have "for_each listed (\<lambda>fip.
       if unset (fip_fixed_ip_address fip) then
         bind (sdk (DeleteIp fip) (delete_ip (network self) fip)) (\<lambda>_.
         logger INFO (''Deleted floating IP: '' @ fip_floating_ip_address fip))
       else ret ()) (w\<lparr>cloud := c, calls := calls w @ [ListIps]\<rparr>) = (Inr (), w')"
    by (simp add: cleanup_floating_ips_def bind_def sdk_def)
  from delete_ips_loop[OF this] l r show ?thesis by simp
qed

lemma bind_InrD:
  "bind m f w = (Inr y, w') \<Longrightarrow> \<exists>x w1. m w = (Inr x, w1) \<and> f x w1 = (Inr y, w')"
  by (auto simp: bind_def split: prod.splits sum.splits)

text \<open>
  Claim C9. When \<^verbatim>\<open>cleanup_resources\<close> returns, the floating addresses it has deleted
  are exactly those of the listing (made after the loops over the servers and the
  volumes) that have no fixed address, in the order of the listing, whatever the
  prefix is. Every other deletion it has issued (server, volume, router, network,
  security group) is of a resource whose name starts with the prefix.
\<close>

theorem cleanup_floating_ips_ignore_prefix:
  assumes "cleanup_resources self prefix w = (Inr (), w')"
  shows "\<exists>ws wv listed c new.
     cleanup_servers self prefix w = (Inr (), ws) \<and>
     cleanup_volumes self prefix ws = (Inr (), wv) \<and>
     ips (network self) (cloud wv) = (Inr listed, c) \<and>
     calls w' = calls w @ new \<and>
     deleted_ips new = filter (\<lambda>f. unset (fip_fixed_ip_address f)) listed \<and>
     list_all (cleanup_call prefix) new"
proof -
  from assms obtain ws where s: "cleanup_servers self prefix w = (Inr (), ws)"
    and r1: "bind (cleanup_volumes self prefix) (\<lambda>_.
     bind (cleanup_floating_ips self) (\<lambda>_.
     bind (cleanup_routers self prefix) (\<lambda>_.
     bind (cleanup_networks self prefix) (\<lambda>_.
     cleanup_security_groups self prefix)))) ws = (Inr (), w')"
    using bind_InrD[OF assms[unfolded cleanup_resources_def]] by auto
  from bind_InrD[OF r1] obtain wv where v: "cleanup_volumes self prefix ws = (Inr (), wv)"
    and r2: "bind (cleanup_floating_ips self) (\<lambda>_.
     bind (cleanup_routers self prefix) (\<lambda>_.
     bind (cleanup_networks self prefix) (\<lambda>_.
     cleanup_security_groups self prefix))) wv = (Inr (), w')"
    by auto
  from bind_InrD[OF r2] obtain wf where f: "cleanup_floating_ips self wv = (Inr (), wf)"
    and r3: "bind (cleanup_routers self prefix) (\<lambda>_.
     bind (cleanup_networks self prefix) (\<lambda>_.
     cleanup_security_groups self prefix)) wf = (Inr (), w')"
    by auto
  from bind_InrD[OF r3] obtain wr where r: "cleanup_routers self prefix wf = (Inr (), wr)"
    and r4: "bind (cleanup_networks self prefix) (\<lambda>_.
     cleanup_security_groups self prefix) wr = (Inr (), w')"
    by auto
  from bind_InrD[OF r4] obtain wn where n: "cleanup_networks self prefix wr = (Inr (), wn)"
    and g: "cleanup_security_groups self prefix wn = (Inr (), w')"
    by auto
  obtain n1 where n1: "calls ws = calls w @ n1" "list_all (other_cleanup_call prefix) n1"
    using emitsD[OF cleanup_servers_emits s] by blast
  obtain n2 where n2: "calls wv = calls ws @ n2" "list_all (other_cleanup_call prefix) n2"
    using emitsD[OF cleanup_volumes_emits v] by blast
  obtain listed c where l: "ips (network self) (cloud wv) = (Inr listed, c)"
    and n3: "calls wf = calls wv @ ListIps # map DeleteIp (filter (\<lambda>f. unset (fip_fixed_ip_address f)) listed)"
    using cleanup_floating_ips_calls[OF f] by blast
  obtain n4 where n4: "calls wr = calls wf @ n4" "list_all (other_cleanup_call prefix) n4"
    using emitsD[OF cleanup_routers_emits r] by blast
  obtain n5 where n5: "calls wn = calls wr @ n5" "list_all (other_cleanup_call prefix) n5"
    using emitsD[OF cleanup_networks_emits n] by blast
  obtain n6 where n6: "calls w' = calls wn @ n6" "list_all (other_cleanup_call prefix) n6"
    using emitsD[OF cleanup_security_groups_emits g] by blast
  let ?fips = "filter (\<lambda>f. unset (fip_fixed_ip_address f)) listed"
  let ?new = "n1 @ n2 @ (ListIps # map DeleteIp ?fips) @ n4 @ n5 @ n6"
  have c: "calls w' = calls w @ ?new"
    using n1 n2 n3 n4 n5 n6 by simp
  have m: "deleted_ips (ListIps # map DeleteIp ?fips) = ?fips"
    by (induction listed) (simp_all add: deleted_ips_def List.map_filter_simps)
  have "deleted_ips ?new = deleted_ips n1 @ deleted_ips n2 @
      deleted_ips (ListIps # map DeleteIp ?fips) @ deleted_ips n4 @ deleted_ips n5 @ deleted_ips n6"
    by (simp only: deleted_ips_append)
  then have d: "deleted_ips ?new = ?fips"
    using n1(2) n2(2) n4(2) n5(2) n6(2) by (simp only: deleted_ips_other m append_Nil append_Nil2)
  have "list_all (cleanup_call prefix) (ListIps # map DeleteIp ?fips)"
    by (induction listed) (simp_all add: cleanup_call_def)
  then have a: "list_all (cleanup_call prefix) ?new"
    using n1(2) n2(2) n4(2) n5(2) n6(2) by (simp only: list_all_append other_cleanup_call_all simp_thms)
  from s v l c d a show ?thesis by blast
qed


lemmas mem_defs = mem_sdk_def mem_compute_def mem_network_def mem_volume_def mem_world_def
  mem_cloud_def mem_server_def mem_named_def

lemmas act_defs = bind_def ret_def raise_def sdk_def logger_def try_except_def lift_def

theorem cleanup_floating_ips_ignore_prefix_witness:
  "fst (cleanup_resources mem_sdk ''web'' mem_world) = Inr () \<and>
   deleted_ips (calls (snd (cleanup_resources mem_sdk ''web'' mem_world))) =
     [\<lparr>fip_floating_ip_address = ''203.0.113.1'', fip_fixed_ip_address = None\<rparr>] \<and>
   list_all (cleanup_call ''web'') (calls (snd (cleanup_resources mem_sdk ''web'' mem_world)))"
proof -
  have e: "fst (cleanup_resources mem_sdk ''web'' mem_world) = Inr () \<and>
      deleted_ips (calls (snd (cleanup_resources mem_sdk ''web'' mem_world))) =
        [\<lparr>fip_floating_ip_address = ''203.0.113.1'', fip_fixed_ip_address = None\<rparr>]"
    by (simp add: cleanup_resources_def cleanup_servers_def cleanup_volumes_def
        cleanup_floating_ips_def cleanup_routers_def cleanup_networks_def
        cleanup_security_groups_def act_defs mem_defs startswith_def name_matches_def unset_def
        opt_str_def deleted_ips_def List.map_filter_simps)
  then have r: "cleanup_resources mem_sdk ''web'' mem_world =
      (Inr (), snd (cleanup_resources mem_sdk ''web'' mem_world))"
    by (simp add: prod_eq_iff)
  have "calls mem_world = []" by (simp add: mem_world_def)
  with cleanup_floating_ips_ignore_prefix[OF r]
  have "list_all (cleanup_call ''web'') (calls (snd (cleanup_resources mem_sdk ''web'' mem_world)))"
    by auto
  with e show ?thesis by simp
qed


section \<open>Rolling update: one server, one window\<close>

lemma launch_instance_kw_networks:
  "launch_instance_kw self
     [(''name'', a), (''image_name'', b), (''flavor_name'', c), (''networks'', d)] w =
   (Inl (TypeError (''launch_instance() got an unexpected keyword argument '' @ py_repr ''networks'')), w)"
  by (simp add: launch_instance_kw_def bind_launch_instance_def launch_instance_params_def raise_def)

lemma bind_clock: "bind (clock self) f w = f (time_time self (cloud w)) w"
  by (simp add: bind_def clock_def)

lemma bind_sdk:
  "bind (sdk ev g) f w =
     (case g (cloud w) of
        (Inl e, c) \<Rightarrow> (Inl e, w\<lparr>cloud := c, calls := calls w @ [ev]\<rparr>)
      | (Inr x, c) \<Rightarrow> f x (w\<lparr>cloud := c, calls := calls w @ [ev]\<rparr>))"
  by (simp add: bind_def sdk_def split: prod.splits sum.splits)

lemma window_events_append: "window_events (xs @ ys) = window_events xs @ window_events ys"
  by (simp add: window_events_def List.map_filter_def)

lemma created_append: "created (xs @ ys) = created xs @ created ys"
  by (simp add: created_def List.map_filter_def)

lemma replace_calls_events:
  "list_all (replace_call s) new \<Longrightarrow> window_events new = [] \<and> created new = []"
  by (induction new)
     (auto simp: window_events_def created_def List.map_filter_simps replace_call_def)

lemma update_rest_emits:
  "emits (replace_call server)
     (bind (logger INFO (''Created pre-update snapshot: '' @ snapshot_name)) (\<lambda>_.
      bind (lift (uuid_dicts (srv_networks server))) (\<lambda>networks.
      bind (sdk (DeleteServer server) (delete_server (compute self) server)) (\<lambda>_.
      bind (sdk (WaitForDelete server) (wait_for_delete (compute self) server)) (\<lambda>_.
      bind (logger INFO (''Deleted old instance: '' @ srv_name server)) (\<lambda>_.
      bind (lift (subscript (srv_flavor server) ''original_name'')) (\<lambda>flavor_name.
      bind (launch_instance_kw self
              [(''name'', Str (srv_name server)),
               (''image_name'', Str new_image),
               (''flavor_name'', Str flavor_name),
               (''networks'', Dicts networks)]) (\<lambda>new_server.
      logger INFO (''Created new instance: '' @ srv_name new_server)))))))))"
proof -
  have k: "emits (replace_call server) (launch_instance_kw self
              [(''name'', a), (''image_name'', b), (''flavor_name'', c), (''networks'', d)])"
    for a b c d
    by (rule emitsI) (simp add: launch_instance_kw_networks)
  show ?thesis
    by (intro emits_bind emits_logger emits_lift emits_sdk k) (simp_all add: replace_call_def)
qed

lemma update_one_calls:
  obtains w' snapshot_name new where
    "update_one self new_image server w = (Inr (), w')"
    "calls w' = calls w @ CreateServerImage server snapshot_name # new"
    "list_all (replace_call server) new"
proof -
  let ?name = "srv_name server @ ''-pre-update-'' @ str_int (time_time self (cloud w))"
  let ?rest = "bind (logger INFO (''Created pre-update snapshot: '' @ ?name)) (\<lambda>_.
      bind (lift (uuid_dicts (srv_networks server))) (\<lambda>networks.
      bind (sdk (DeleteServer server) (delete_server (compute self) server)) (\<lambda>_.
      bind (sdk (WaitForDelete server) (wait_for_delete (compute self) server)) (\<lambda>_.
      bind (logger INFO (''Deleted old instance: '' @ srv_name server)) (\<lambda>_.
      bind (lift (subscript (srv_flavor server) ''original_name'')) (\<lambda>flavor_name.
      bind (launch_instance_kw self
              [(''name'', Str (srv_name server)),
               (''image_name'', Str new_image),
               (''flavor_name'', Str flavor_name),
               (''networks'', Dicts networks)]) (\<lambda>new_server.
      logger INFO (''Created new instance: '' @ srv_name new_server))))))))"
  let ?fail = "\<lambda>e. (ERROR, ''Failed to update '' @ srv_name server @ '': '' @ exn_str e)"
  obtain r c1 where s: "create_server_image (compute self) server ?name (cloud w) = (r, c1)"
    by (cases "create_server_image (compute self) server ?name (cloud w)")
  let ?w1 = "w\<lparr>cloud := c1, calls := calls w @ [CreateServerImage server ?name]\<rparr>"
  show ?thesis
  proof (cases r)
    case (Inl e)
    have u: "update_one self new_image server w = (Inr (), ?w1\<lparr>logs := logs ?w1 @ [?fail e]\<rparr>)"
      unfolding update_one_def try_except_def
      apply (subst bind_clock)
      apply (simp only: Let_def)
      apply (subst bind_sdk)
      apply (simp only: s Inl prod.case sum.case logger_def)
      done
    have c: "calls (?w1\<lparr>logs := logs ?w1 @ [?fail e]\<rparr>)
        = calls w @ CreateServerImage server ?name # []"
      by simp
    show ?thesis by (rule that[OF u c]) simp
  next
    case (Inr img)
    obtain r2 w2 where rest: "?rest ?w1 = (r2, w2)" by (cases "?rest ?w1")
    have e: "emits (replace_call server) ?rest"
      by (rule update_rest_emits[where server=server and self=self and new_image=new_image
            and snapshot_name="?name"])
    have "\<exists>new. calls w2 = calls ?w1 @ new \<and> list_all (replace_call server) new"
      by (rule emitsD[where P="replace_call server" and m="?rest" and w="?w1" and r=r2 and w'=w2,
            OF e rest])
    then obtain new where
      new: "calls w2 = calls ?w1 @ new" "list_all (replace_call server) new"
      by (elim exE conjE)
    have c: "calls w2 = calls w @ CreateServerImage server ?name # new"
      using new(1) by simp
    have u: "update_one self new_image server w =
        (case r2 of
           Inl e \<Rightarrow> (Inr (), w2\<lparr>logs := logs w2 @ [?fail e]\<rparr>)
         | Inr x \<Rightarrow> (Inr x, w2))"
      unfolding update_one_def try_except_def
      apply (subst bind_clock)
      apply (simp only: Let_def)
      apply (subst bind_sdk)
      apply (simp only: s Inr prod.case sum.case rest logger_def)
      done
    show ?thesis
    proof (cases r2)
      case (Inl e)
      have u': "update_one self new_image server w = (Inr (), w2\<lparr>logs := logs w2 @ [?fail e]\<rparr>)"
        using u by (simp only: Inl sum.case)
      have c': "calls (w2\<lparr>logs := logs w2 @ [?fail e]\<rparr>)
          = calls w @ CreateServerImage server ?name # new"
        using c by simp
      show ?thesis by (rule that[OF u' c' new(2)])
    next
      case (Inr x)
      have u': "update_one self new_image server w = (Inr (), w2)"
        using u by (simp only: Inr sum.case unit_eq[of x])
      show ?thesis by (rule that[OF u' c new(2)])
    qed
  qed
qed

lemma update_batch_calls:
  "\<exists>w' new.
     for_each batch (update_one self new_image) w = (Inr (), w') \<and>
     calls w' = calls w @ new \<and>
     window_events new = map Inl batch \<and> created new = []"
proof (induction batch arbitrary: w)
  case Nil
  then show ?case by (simp add: ret_def window_events_def created_def List.map_filter_simps)
next
  case (Cons s batch)
  obtain w1 nm n1 where one: "update_one self new_image s w = (Inr (), w1)"
    and c1: "calls w1 = calls w @ CreateServerImage s nm # n1"
    and r1: "list_all (replace_call s) n1"
    by (rule update_one_calls)
  obtain w' n2 where rest: "for_each batch (update_one self new_image) w1 = (Inr (), w')"
    and c2: "calls w' = calls w1 @ n2"
    and e2: "window_events n2 = map Inl batch" "created n2 = []"
    using Cons.IH[of w1] by (elim exE conjE)
  have h: "window_events [CreateServerImage s nm] = [Inl s]" "created [CreateServerImage s nm] = []"
    by (simp_all add: window_events_def created_def List.map_filter_simps)
  have "window_events ([CreateServerImage s nm] @ n1 @ n2)
      = window_events [CreateServerImage s nm] @ window_events n1 @ window_events n2"
    "created ([CreateServerImage s nm] @ n1 @ n2)
      = created [CreateServerImage s nm] @ created n1 @ created n2"
    by (simp_all only: window_events_append created_append)
  then have "window_events ([CreateServerImage s nm] @ n1 @ n2) = map Inl (s # batch)"
    "created ([CreateServerImage s nm] @ n1 @ n2) = []"
    using replace_calls_events[OF r1] e2 h by simp_all
  moreover have "calls w' = calls w @ ([CreateServerImage s nm] @ n1 @ n2)"
    using c1 c2 by simp
  moreover have "for_each (s # batch) (update_one self new_image) w = (Inr (), w')"
    using one rest by (simp add: bind_def)
  ultimately show ?case by blast
qed

section \<open>Rolling update: windows and delays\<close>

lemma ceil_div_less:
  fixes a n bs :: nat
  assumes "0 < bs"
  shows "(a < (n + bs - 1) div bs) = (a * bs < n)"
proof -
  have "(a < (n + bs - 1) div bs) = (Suc a \<le> (n + bs - 1) div bs)" by auto
  also have "\<dots> = (Suc a * bs \<le> n + bs - 1)"
    using assms by (simp only: less_eq_div_iff_mult_less_eq)
  also have "\<dots> = (a * bs < n)" using assms by auto
  finally show ?thesis .
qed

lemma delay_cond:
  fixes bs :: int
  assumes "0 < bs"
  shows "(int a * bs + bs < int n) = (nat bs + a * nat bs < n)"
proof -
  from assms obtain k where k: "bs = int k" by (metis zero_less_imp_eq_int)
  show ?thesis
    unfolding k
    apply (simp only: nat_int of_nat_mult[symmetric] of_nat_add[symmetric] of_nat_less_iff)
    apply (simp add: add.commute)
    done
qed

lemma windows_step:
  "0 < bs \<Longrightarrow> k < length xs \<Longrightarrow>
   windows bs (drop k xs) = take bs (drop k xs) # windows bs (drop (Suc k' * bs) xs)"
  if "k = k' * bs"
  using that by (subst windows.simps) (simp add: add.commute)

lemma windows_done: "length xs \<le> k \<Longrightarrow> windows bs (drop k xs) = []"
  by (subst windows.simps) simp

lemma windows_eq_Nil: "0 < bs \<Longrightarrow> (windows bs xs = []) = (xs = [])"
  by (subst windows.simps) simp

lemma with_delays_Cons:
  "with_delays (b # bs) = map Inl b @ (if bs = [] then [] else Inr 30 # with_delays bs)"
  by (cases bs) simp_all

lemma window_events_Nil: "window_events [] = []" "created [] = []"
  by (simp_all add: window_events_def created_def List.map_filter_simps)

lemma window_events_Sleep: "window_events [Sleep n] = [Inr n]" "created [Sleep n] = []"
  by (simp_all add: window_events_def created_def List.map_filter_simps)

lemma update_windows_calls:
  assumes bs: "0 < batch_size"
    and m: "m = (length matched + nat batch_size - 1) div nat batch_size"
  shows "a \<le> m \<Longrightarrow>
    \<exists>w' new.
      update_windows self new_image batch_size matched (map (\<lambda>k. k * nat batch_size) [a..<m]) w
        = (Inr (), w') \<and>
      calls w' = calls w @ new \<and>
      window_events new
        = with_delays (windows (nat batch_size) (drop (a * nat batch_size) matched)) \<and>
      created new = []"
proof (induction "m - a" arbitrary: a w)
  case 0
  then have a: "a = m" by simp
  have "\<not> (m * nat batch_size < length matched)"
    using ceil_div_less[of "nat batch_size" m "length matched"] bs m by simp
  then have "windows (nat batch_size) (drop (a * nat batch_size) matched) = []"
    using a by (intro windows_done) simp
  then show ?case
    by (simp add: a ret_def window_events_def created_def List.map_filter_simps)
next
  case (Suc d)
  let ?bs = "nat batch_size"
  let ?batch = "take ?bs (drop (a * ?bs) matched)"
  let ?msg = "''Processing batch: '' @ ''['' @ join '', '' (map (\<lambda>s. py_repr (srv_name s)) ?batch) @ '']''"
  let ?w0 = "w\<lparr>logs := logs w @ [(INFO, ?msg)]\<rparr>"
  let ?cond = "int (a * ?bs) + batch_size < int (length matched)"
  from Suc.hyps(2) Suc.prems have lt: "a < m" by simp
  then have inside: "a * ?bs < length matched"
    using ceil_div_less[of ?bs a "length matched"] bs m by simp
  have upt: "[a..<m] = a # [Suc a..<m]" using lt by (simp add: upt_conv_Cons)
  obtain w1 n1 where b: "for_each ?batch (update_one self new_image) ?w0 = (Inr (), w1)"
    and c1: "calls w1 = calls ?w0 @ n1"
    and e1: "window_events n1 = map Inl ?batch" "created n1 = []"
    using update_batch_calls[where batch="?batch" and self=self and new_image=new_image and w="?w0"]
    by (elim exE conjE)
  let ?w2 = "if ?cond then
      w1\<lparr>logs := logs w1 @ [(INFO, ''Waiting 30 seconds before next batch...'')],
         cloud := time_sleep self 30 (cloud w1), calls := calls w1 @ [Sleep 30]\<rparr>
    else w1"
  have d: "d = m - Suc a" using Suc.hyps(2) by simp
  have le: "Suc a \<le> m" using lt by simp
  obtain w' n3 where r: "update_windows self new_image batch_size matched
        (map (\<lambda>k. k * ?bs) [Suc a..<m]) ?w2 = (Inr (), w')"
    and c3: "calls w' = calls ?w2 @ n3"
    and e3: "window_events n3 = with_delays (windows ?bs (drop (Suc a * ?bs) matched))"
      "created n3 = []"
    using Suc.hyps(1)[OF d le, of ?w2] by (elim exE conjE)
  have run: "update_windows self new_image batch_size matched (map (\<lambda>k. k * ?bs) [a..<m]) w
      = (Inr (), w')"
    using b r bs
    by (auto simp add: upt Let_def bind_def logger_def sleep_def ret_def delay_cond split: if_splits)
  have cond: "?cond = (Suc a * ?bs < length matched)"
    using delay_cond[OF bs, of a "length matched"] bs by simp
  have w: "windows ?bs (drop (a * ?bs) matched) = ?batch # windows ?bs (drop (Suc a * ?bs) matched)"
    using windows_step[of "a * ?bs" a ?bs matched] bs inside by simp
  define cnd where "cnd = ?cond"
  define dl where "dl = (if cnd then [Sleep 30] else [])"
  have nil: "(windows ?bs (drop (Suc a * ?bs) matched) = []) = (\<not> cnd)"
    unfolding cnd_def using bs by (simp only: windows_eq_Nil cond) auto
  have dl_ev: "window_events dl = (if cnd then [Inr 30] else [])" "created dl = []"
    by (simp_all add: dl_def window_events_Sleep window_events_Nil)
  have calls: "calls w' = calls w @ (n1 @ dl @ n3)"
    using c1 c3 by (simp add: dl_def cnd_def)
  have "window_events (n1 @ dl @ n3) = window_events n1 @ window_events dl @ window_events n3"
    by (simp only: window_events_append)
  also have "\<dots> = map Inl ?batch @ (if cnd then [Inr 30] else [])
      @ with_delays (windows ?bs (drop (Suc a * ?bs) matched))"
    by (simp only: e1 e3 dl_ev)
  also have "\<dots> = with_delays (?batch # windows ?bs (drop (Suc a * ?bs) matched))"
    using nil by (cases cnd) (simp_all add: with_delays_Cons del: mult_Suc)
  finally have ev: "window_events (n1 @ dl @ n3) = with_delays (windows ?bs (drop (a * ?bs) matched))"
    by (simp only: w)
  have "created (n1 @ dl @ n3) = created n1 @ created dl @ created n3"
    by (simp only: created_append)
  then have cr: "created (n1 @ dl @ n3) = []"
    by (simp only: e1 e3 dl_ev append_Nil)
  from run calls ev cr show ?case by blast
qed

text \<open>
  Claim C5. When the listing of the servers succeeds and the batch size is positive,
  \<^verbatim>\<open>rolling_update\<close> returns, and the updates it begins and the delays it makes are, in
  order, those of the specification: the matching servers cut into windows of the batch
  size, a delay of 30 between two consecutive windows and none after the last. For 5
  matching servers and batch size 2 these are the windows of sizes 2, 2 and 1 with a
  delay after the first and after the second only (the witness).
\<close>

theorem rolling_update_windows:
  assumes l: "servers (compute self) (cloud w) = (Inr listed, c)"
    and bs: "0 < batch_size"
  shows "\<exists>w' new.
     rolling_update self server_prefix new_image batch_size w = (Inr (), w') \<and>
     calls w' = calls w @ ListServers # new \<and>
     window_events new =
       with_delays (windows (nat batch_size)
         (filter (\<lambda>s. startswith (srv_name s) server_prefix) listed))"
proof -
  let ?matched = "filter (\<lambda>s. startswith (srv_name s) server_prefix) listed"
  let ?w1 = "w\<lparr>cloud := c, calls := calls w @ [ListServers]\<rparr>"
  show ?thesis
  proof (cases "?matched = []")
    case True
    have "rolling_update self server_prefix new_image batch_size w =
        (Inr (), ?w1\<lparr>logs := logs ?w1 @ [(WARNING, ''No servers found with prefix: '' @ server_prefix)]\<rparr>)"
      using l True by (simp add: rolling_update_def bind_sdk logger_def)
    moreover have "window_events [] = with_delays (windows (nat batch_size) ?matched)"
      using True by (simp add: window_events_Nil windows_done[of _ 0 , simplified])
    ultimately show ?thesis by force
  next
    case False
    let ?m = "(length ?matched + nat batch_size - 1) div nat batch_size"
    have range: "py_range (length ?matched) batch_size = Inr (map (\<lambda>k. k * nat batch_size) [0..<?m])"
      using bs by (simp add: py_range_def)
    have le: "0 \<le> ?m" by simp
    have "\<exists>w' new.
        update_windows self new_image batch_size ?matched
          (map (\<lambda>k. k * nat batch_size) [0..<?m]) ?w1 = (Inr (), w') \<and>
        calls w' = calls ?w1 @ new \<and>
        window_events new
          = with_delays (windows (nat batch_size) (drop (0 * nat batch_size) ?matched)) \<and>
        created new = []"
      by (rule update_windows_calls[OF bs refl le])
    then obtain w' new where u: "update_windows self new_image batch_size ?matched
          (map (\<lambda>k. k * nat batch_size) [0..<?m]) ?w1 = (Inr (), w')"
      and c: "calls w' = calls ?w1 @ new"
      and e: "window_events new = with_delays (windows (nat batch_size) (drop (0 * nat batch_size) ?matched))"
      by (elim exE conjE)
    have "rolling_update self server_prefix new_image batch_size w = (Inr (), w')"
      using l False u by (simp add: rolling_update_def sdk_def Let_def range lift_def bind_def ret_def)
    moreover have "calls w' = calls w @ ListServers # new" using c by simp
    moreover have "window_events new = with_delays (windows (nat batch_size) ?matched)"
      using e by simp
    ultimately show ?thesis by blast
  qed
qed

theorem rolling_update_windows_witness:
  "fst (rolling_update mem_sdk ''web'' ''ubuntu-20.04'' 2 mem_world) = Inr () \<and>
   window_events (calls (snd (rolling_update mem_sdk ''web'' ''ubuntu-20.04'' 2 mem_world))) =
     [Inl (mem_server ''web-1'' ''ACTIVE'' [(''private'', [''10.0.0.5''])]),
      Inl (mem_server ''web-2'' ''SHUTOFF'' [(''private'', [''10.0.0.6''])]),
      Inr 30,
      Inl (mem_server ''web-3'' ''ACTIVE'' []),
      Inl (mem_server ''web-4'' ''ERROR'' [(''private'', [''10.0.0.8''])]),
      Inr 30,
      Inl (mem_server ''web-5'' ''ACTIVE'' [(''private'', [''10.0.0.9''])])]"
proof -
  have l: "servers (compute mem_sdk) (cloud mem_world) = (Inr (be_servers mem_cloud), mem_cloud)"
    by (simp add: mem_sdk_def mem_compute_def mem_world_def)
  have m: "with_delays (windows (nat 2)
        (filter (\<lambda>s. startswith (srv_name s) ''web'') (be_servers mem_cloud))) =
     [Inl (mem_server ''web-1'' ''ACTIVE'' [(''private'', [''10.0.0.5''])]),
      Inl (mem_server ''web-2'' ''SHUTOFF'' [(''private'', [''10.0.0.6''])]),
      Inr 30,
      Inl (mem_server ''web-3'' ''ACTIVE'' []),
      Inl (mem_server ''web-4'' ''ERROR'' [(''private'', [''10.0.0.8''])]),
      Inr 30,
      Inl (mem_server ''web-5'' ''ACTIVE'' [(''private'', [''10.0.0.9''])])]"
    by (simp add: mem_cloud_def mem_server_def startswith_def windows.simps)
  have z: "(0::int) < 2" by simp
  from rolling_update_windows[OF l z, where server_prefix="''web''" and new_image="''ubuntu-20.04''"]
  obtain w' new where r: "rolling_update mem_sdk ''web'' ''ubuntu-20.04'' 2 mem_world = (Inr (), w')"
    and c: "calls w' = calls mem_world @ ListServers # new"
    and e: "window_events new = with_delays (windows (nat 2)
        (filter (\<lambda>s. startswith (srv_name s) ''web'') (be_servers mem_cloud)))"
    by (elim exE conjE)
  have "window_events (calls w') = window_events new"
    using c by (simp add: mem_world_def window_events_def List.map_filter_simps)
  with r e m show ?thesis by simp
qed

section \<open>Rolling update creates no replacement\<close>

lemma emits_sleep: "P (Sleep n) \<Longrightarrow> emits P (sleep self n)"
  by (simp add: emits_def sleep_def)

lemma update_one_no_create: "emits no_create (update_one self new_image server)"
proof -
  have k: "emits no_create (launch_instance_kw self
              [(''name'', a), (''image_name'', b), (''flavor_name'', c), (''networks'', d)])"
    for a b c d
    by (rule emitsI) (simp add: launch_instance_kw_networks)
  show ?thesis
    unfolding update_one_def Let_def
    by (intro emits_try_except emits_bind emits_clock emits_sdk emits_logger emits_lift k)
       (simp_all add: no_create_def)
qed

lemma update_windows_no_create:
  "emits no_create (update_windows self new_image batch_size matched starts)"
proof (induction starts)
  case Nil
  show ?case by (simp add: emits_ret)
next
  case (Cons i starts)
  show ?case
    unfolding update_windows.simps Let_def
    by (intro emits_bind emits_logger emits_for_each update_one_no_create emits_if emits_sleep
        emits_ret Cons.IH)
       (simp add: no_create_def)
qed

lemma rolling_update_no_create:
  "emits no_create (rolling_update self server_prefix new_image batch_size)"
  unfolding rolling_update_def Let_def
  by (intro emits_bind emits_sdk emits_if emits_logger emits_lift update_windows_no_create)
     (simp add: no_create_def)

lemma created_no_create: "list_all no_create new \<Longrightarrow> created new = []"
  by (induction new) (auto simp: created_def List.map_filter_simps no_create_def split: call.splits)

lemma rolling_update_creates_nothing:
  assumes "rolling_update self server_prefix new_image batch_size w = (r, w')"
  shows "\<exists>new. calls w' = calls w @ new \<and> created new = []"
  using emitsD[OF rolling_update_no_create assms] created_no_create by blast

text \<open>
  Claim C6 does not hold of the code. \<^verbatim>\<open>rolling_update\<close> calls \<^verbatim>\<open>launch_instance\<close>
  with the keyword \<^verbatim>\<open>networks\<close>, which is no parameter of \<^verbatim>\<open>launch_instance\<close>: the call
  raises \<^verbatim>\<open>TypeError\<close> before it reaches the SDK, the handler of the loop logs it, and
  no server is ever created (\<open>rolling_update_creates_nothing\<close>, for every backend).
  On the in-memory backend, the update of the one server with prefix \<^verbatim>\<open>db\<close> takes the
  snapshot, deletes the server and leaves the backend without it.
\<close>

theorem rolling_update_deletes_without_replacement:
  "rolling_update mem_sdk ''db'' ''ubuntu-20.04'' 2 mem_world =
     (Inr (),
      \<lparr> cloud = mem_cloud
          \<lparr> be_servers :=
              [mem_server ''web-1'' ''ACTIVE'' [(''private'', [''10.0.0.5''])],
               mem_server ''web-2'' ''SHUTOFF'' [(''private'', [''10.0.0.6''])],
               mem_server ''web-3'' ''ACTIVE'' [],
               mem_server ''web-4'' ''ERROR'' [(''private'', [''10.0.0.8''])],
               mem_server ''web-5'' ''ACTIVE'' [(''private'', [''10.0.0.9''])]],
            be_images := [''cirros-0.5.2-x86_64-disk'', ''ubuntu-20.04'', ''db-1-pre-update-1700000000''] \<rparr>,
        calls =
          [ListServers,
           CreateServerImage (mem_server ''db-1'' ''ACTIVE'' [(''private'', [''10.0.0.20''])])
             ''db-1-pre-update-1700000000'',
           DeleteServer (mem_server ''db-1'' ''ACTIVE'' [(''private'', [''10.0.0.20''])]),
           WaitForDelete (mem_server ''db-1'' ''ACTIVE'' [(''private'', [''10.0.0.20''])])],
        logs =
          [(INFO, ''Processing batch: ['db-1']''),
           (INFO, ''Created pre-update snapshot: db-1-pre-update-1700000000''),
           (INFO, ''Deleted old instance: db-1''),
           (ERROR, ''Failed to update db-1: launch_instance() got an unexpected keyword argument 'networks'' @ [CHR 0x27])] \<rparr>)"
  by (simp add: rolling_update_def update_one_def launch_instance_kw_networks py_range_def
      subscript_def clock_def sleep_def py_repr_def str_int_def str_nat.simps
      bind_def ret_def raise_def sdk_def logger_def try_except_def lift_def
      mem_sdk_def mem_compute_def mem_world_def mem_cloud_def mem_server_def
      startswith_def Let_def)

section \<open>Batch launch: one outcome for each configuration\<close>



















section \<open>Batch resize: one bucket for each name\<close>

lemma looked_up_append: "looked_up (xs @ ys) = looked_up xs @ looked_up ys"
  by (simp add: looked_up_def List.map_filter_def)

lemma looked_up_simps:
  "looked_up [] = []"
  "looked_up [FindServer n] = [n]"
  "looked_up [ResizeServer s f] = []"
  "looked_up [WaitForServer s st wt] = []"
  "looked_up [ConfirmResizeServer s] = []"
  "looked_up [FindFlavor v] = []"
  by (simp_all add: looked_up_def List.map_filter_simps)







section \<open>Batch snapshot: a name that does not resolve\<close>









lemma snapshot_of_mono: "set names \<subseteq> set names' \<Longrightarrow> snapshot_of names nm \<Longrightarrow> snapshot_of names' nm"
  by (auto simp: snapshot_of_def)







end
